theory Spec2Isabelle
  imports Main "HOL-Library.Sublist"
begin

section \<open>Data model\<close>

text \<open>
  The chart backend's upload handler (\<^verbatim>\<open>api/charts/upload.py\<close>) and edit handler
  (\<^verbatim>\<open>api/charts/{id}/edit.py\<close>) are embedded as pure functions. A handler takes the
  request, the answers of its collaborators and returns the ordered list of I/O
  operations it issued together with its outcome (an exception or the response).
  Byte strings and hex digests are both character lists.
\<close>

type_synonym bytes = string
type_synonym hash = string

text \<open>
  Exceptions: \<open>HTTPException status_code detail\<close> is the one the handlers raise
  themselves, \<open>UnboundLocalError name\<close> is Python reading a local variable that no
  executed branch assigned, \<open>ExternalError\<close> is anything a collaborator raises.
\<close>

datatype exn =
    HTTPException nat string
  | UnboundLocalError string
  | ExternalError string

text \<open>\<^verbatim>\<open>helpers/constants.py\<close>: the sizes are bytes.\<close>

definition MAX_FILE_SIZES_jacket :: nat where "MAX_FILE_SIZES_jacket = 7864320"
definition MAX_FILE_SIZES_chart :: nat where "MAX_FILE_SIZES_chart = 20 * 1024 * 1024"
definition MAX_FILE_SIZES_audio :: nat where "MAX_FILE_SIZES_audio = 50 * 1024 * 1024"
definition MAX_FILE_SIZES_preview :: nat where "MAX_FILE_SIZES_preview = 5 * 1024 * 1024"
definition MAX_FILE_SIZES_background :: nat where "MAX_FILE_SIZES_background = 15 * 1024 * 1024"

definition MAX_TEXT_SIZES_description :: nat where "MAX_TEXT_SIZES_description = 1000"
definition MAX_TEXT_SIZES_artists :: nat where "MAX_TEXT_SIZES_artists = 50"
definition MAX_TEXT_SIZES_author :: nat where "MAX_TEXT_SIZES_author = 50"
definition MAX_TEXT_SIZES_title :: nat where "MAX_TEXT_SIZES_title = 50"
definition MAX_TEXT_SIZES_per_tag :: nat where "MAX_TEXT_SIZES_per_tag = 10"
definition MAX_TEXT_SIZES_tags_count :: nat where "MAX_TEXT_SIZES_tags_count = 3"

definition MAX_RATINGS_min :: int where "MAX_RATINGS_min = - 999"
definition MAX_RATINGS_max :: int where "MAX_RATINGS_max = 999"

text \<open>
  \<^verbatim>\<open>ChartEditData\<close> of \<^verbatim>\<open>helpers/models.py\<close>. The seven flags are
  \<^verbatim>\<open>Optional[bool]\<close>; the handler only ever tests their truth value, so \<^verbatim>\<open>None\<close>
  and \<^verbatim>\<open>False\<close> are one value here.
\<close>

record ChartEditData =
  author :: "string option"
  rating :: "int option"
  title :: "string option"
  artists :: "string option"
  description :: "string option"
  tags :: "string list option"
  includes_background :: bool
  includes_preview :: bool
  delete_background :: bool
  delete_preview :: bool
  includes_audio :: bool
  includes_jacket :: bool
  includes_chart :: bool

text \<open>An attached file: the size the multipart parser reports, and what reading it gives.\<close>

record UploadFile =
  file_size :: nat
  file_bytes :: bytes

text \<open>
  The row \<^verbatim>\<open>charts.get_chart_by_id\<close> fetches: its id, its owner and the seven hash
  columns. Preview and background are nullable.
\<close>

record chart_row =
  row_id :: string
  row_author :: string
  jacket_file_hash :: hash
  music_file_hash :: hash
  chart_file_hash :: hash
  background_v1_file_hash :: hash
  background_v3_file_hash :: hash
  preview_file_hash :: "hash option"
  background_file_hash :: "hash option"

text \<open>The names of the hash columns, which the edit handler collects as strings.\<close>

datatype hash_key =
    K_background_file_hash
  | K_background_v1_file_hash
  | K_background_v3_file_hash
  | K_jacket_file_hash
  | K_chart_file_hash
  | K_music_file_hash
  | K_preview_file_hash

text \<open>\<^verbatim>\<open>getattr(old_chart_data, hash_key)\<close>; a null column reads as \<^verbatim>\<open>None\<close>.\<close>

fun getattr_hash :: "chart_row \<Rightarrow> hash_key \<Rightarrow> hash option" where
  "getattr_hash c K_background_file_hash = background_file_hash c"
| "getattr_hash c K_background_v1_file_hash = Some (background_v1_file_hash c)"
| "getattr_hash c K_background_v3_file_hash = Some (background_v3_file_hash c)"
| "getattr_hash c K_jacket_file_hash = Some (jacket_file_hash c)"
| "getattr_hash c K_chart_file_hash = Some (chart_file_hash c)"
| "getattr_hash c K_music_file_hash = Some (music_file_hash c)"
| "getattr_hash c K_preview_file_hash = preview_file_hash c"

text \<open>One entry of the \<^verbatim>\<open>s3_uploads\<close> list (a dict with these four keys).\<close>

record s3_file =
  f_path :: string
  f_hash :: hash
  f_bytes :: bytes
  f_content_type :: string

text \<open>\<^verbatim>\<open>ChartUploadData\<close> and the upload request: three mandatory files, two optional.\<close>

record ChartUploadData =
  u_rating :: int
  u_title :: string
  u_author :: string
  u_artists :: string
  u_tags :: "string list option"
  u_description :: "string option"
  u_includes_background :: bool
  u_includes_preview :: bool

record upload_request =
  up_data :: "string + ChartUploadData"
  up_jacket_image :: UploadFile
  up_chart_file :: UploadFile
  up_audio_file :: UploadFile
  up_preview_file :: "UploadFile option"
  up_background_image :: "UploadFile option"

text \<open>The edit request: the chart id of the route, the form field and the attachments.\<close>

record edit_request =
  req_id :: string
  req_data :: "string + ChartEditData"
  jacket_image :: "UploadFile option"
  chart_file :: "UploadFile option"
  audio_file :: "UploadFile option"
  preview_file :: "UploadFile option"
  background_image :: "UploadFile option"

text \<open>The authenticated session: its own id and the id of the account it resolves to.\<close>

record session =
  sonolus_id :: string
  user_sonolus_id :: string
  chart_upload_cooldown :: "int option"

section \<open>Collaborators\<close>

text \<open>
  Code outside the repository's sources is a parameter: the hashing and file helpers,
  the image resizer, the converter library (its detector, loaders and exporter), the
  gzip writer of the standard library, and how an exception prints. The library's
  detector returns a pair \<open>(kind, tag)\<close> or nothing to the edit handler, and a
  validity flag, four class flags and a tag to the upload handler. \<open>next_sekai_export\<close>
  is the export into a fresh buffer followed by the read of that buffer, and
  \<open>gzip_write name mtime data\<close> is what a \<^verbatim>\<open>GzipFile\<close> with that file name and
  modification time leaves in its buffer once \<open>data\<close> is written and the file closed.
\<close>

typedecl score

record env =
  calculate_sha1 :: "bytes \<Rightarrow> hash"
  get_and_check_file :: "UploadFile \<Rightarrow> string \<Rightarrow> exn + bytes"
  generate_backgrounds_resize_jacket :: "bytes \<Rightarrow> exn + (bytes \<times> bytes \<times> bytes)"
  detect_edit :: "bytes \<Rightarrow> (string \<times> string) option"
  detect_upload :: "bytes \<Rightarrow> bool \<times> bool \<times> bool \<times> bool \<times> bool \<times> string"
  sus_load :: "bytes \<Rightarrow> exn + score"
  usc_load :: "bytes \<Rightarrow> exn + score"
  next_sekai_export :: "score \<Rightarrow> exn + bytes"
  gzip_write :: "string \<Rightarrow> nat \<Rightarrow> bytes \<Rightarrow> bytes"
  exn_str :: "exn \<Rightarrow> string"
  app_debug :: bool

text \<open>
  What the stores and the clock answer during one request: the row of the chart, the
  objects listed under the replay prefix, whether the blob batch or the first statement
  of the commit raises, the fresh UUID, the time in seconds, and the id the insert of a
  new chart returns (if it returns a row).
\<close>

record world =
  fetchrow_chart :: "chart_row option"
  replay_objects :: "string list"
  gather_raises :: bool
  execute_raises :: bool
  uuid4 :: string
  now :: int
  fetchrow_create :: "string option"

section \<open>Operations issued to the stores\<close>

datatype s3_task =
    Delete string
  | Upload string bytes string

record metadata_args =
  m_chart_id :: string
  m_chart_author :: "string option"
  m_rating :: "int option"
  m_title :: "string option"
  m_artists :: "string option"
  m_tags :: "string list option"
  m_description :: "string option"
  m_update_none_description :: bool

record file_hash_args =
  h_chart_id :: string
  h_jacket_hash :: "hash option"
  h_v1_hash :: "hash option"
  h_v3_hash :: "hash option"
  h_music_hash :: "hash option"
  h_chart_hash :: "hash option"
  h_preview_hash :: "hash option"
  h_background_hash :: "hash option"
  h_confirm_change :: bool
  h_update_none_preview :: bool
  h_update_none_background :: bool

text \<open>The \<^verbatim>\<open>Chart\<close> model the upload handler inserts.\<close>

record Chart =
  c_id :: string
  c_author :: string
  c_rating :: int
  c_chart_author :: string
  c_title :: string
  c_artists :: string
  c_jacket_file_hash :: hash
  c_music_file_hash :: hash
  c_chart_file_hash :: hash
  c_background_v1_file_hash :: hash
  c_background_v3_file_hash :: hash
  c_tags :: "string list"
  c_description :: "string option"
  c_preview_file_hash :: "hash option"
  c_background_file_hash :: "hash option"

datatype query =
    get_chart_by_id string
  | update_metadata metadata_args
  | update_file_hash file_hash_args
  | delete_leaderboards string
  | create_chart Chart
  | update_cooldown string nat

text \<open>
  \<open>Gather\<close> is one \<^verbatim>\<open>asyncio.gather\<close> over object-store coroutines: its tasks run
  concurrently, so their order inside the batch means nothing.
\<close>

datatype event =
    SessionUser
  | Fetchrow query
  | Execute query
  | ListObjects string
  | Gather "s3_task list"

section \<open>The edit handler\<close>

text \<open>\<^verbatim>\<open>str.isalnum\<close> on the ASCII range (digits and letters by code point).\<close>

definition is_alnum :: "char \<Rightarrow> bool" where
  "is_alnum c =
     (let n = (of_char c :: nat) in
      (48 \<le> n \<and> n \<le> 57) \<or> (65 \<le> n \<and> n \<le> 90) \<or> (97 \<le> n \<and> n \<le> 122))"

definition isalnum :: "string \<Rightarrow> bool" where
  "isalnum s = (s \<noteq> [] \<and> list_all is_alnum s)"

definition too_long :: "string option \<Rightarrow> nat \<Rightarrow> bool" where
  "too_long s n = (case s of None \<Rightarrow> False | Some t \<Rightarrow> length t > n)"

definition limits_exceeded :: "ChartEditData \<Rightarrow> bool" where
  "limits_exceeded d =
     (too_long (description d) MAX_TEXT_SIZES_description
      \<or> too_long (artists d) MAX_TEXT_SIZES_artists
      \<or> too_long (title d) MAX_TEXT_SIZES_title
      \<or> too_long (author d) MAX_TEXT_SIZES_author
      \<or> (case tags d of None \<Rightarrow> False
          | Some ts \<Rightarrow> list_ex (\<lambda>tag. length tag > MAX_TEXT_SIZES_per_tag) ts)
      \<or> (case tags d of None \<Rightarrow> False | Some ts \<Rightarrow> length ts > MAX_TEXT_SIZES_tags_count)
      \<or> (case rating d of None \<Rightarrow> False | Some r \<Rightarrow> r \<noteq> 0 \<and> r > MAX_RATINGS_max)
      \<or> (case rating d of None \<Rightarrow> False | Some r \<Rightarrow> r \<noteq> 0 \<and> r < MAX_RATINGS_min))"

definition startswith :: "string \<Rightarrow> string \<Rightarrow> bool" where
  "startswith s p = prefix p s"

definition endswith :: "string \<Rightarrow> string \<Rightarrow> bool" where
  "endswith s p = suffix p s"

text \<open>
  The nested \<^verbatim>\<open>convert\<close> of the edit handler. \<open>result\<close> is the detector's pair. A
  kind other than the three leaves \<^verbatim>\<open>converted\<close> unassigned at the final read.
\<close>

definition convert_edit :: "env \<Rightarrow> string \<times> string \<Rightarrow> bytes \<Rightarrow> exn + bytes" where
  "convert_edit env result chart_bytes =
     (if fst result = ''sus'' then
        (case sus_load env chart_bytes of
           Inl e \<Rightarrow> Inl e
         | Inr sc \<Rightarrow> next_sekai_export env sc)
      else if fst result = ''usc'' then
        (case usc_load env chart_bytes of
           Inl e \<Rightarrow> Inl e
         | Inr sc \<Rightarrow> next_sekai_export env sc)
      else if fst result = ''lvd'' then
        (if \<not> endswith (snd result) ''pysekai'' then
           Inl (HTTPException 400
                  (''Incorrect LevelData: '' @ snd result @ '' (expected: pysekai)''))
         else if \<not> startswith (snd result) ''compress_'' then
           Inr (gzip_write env ''LevelData'' 0 chart_bytes)
         else Inr chart_bytes)
      else Inl (UnboundLocalError ''converted''))"

text \<open>
  The handler's local variables. A hash variable is \<open>None\<close> until a branch assigns it.
\<close>

record locals =
  s3_uploads :: "s3_file list"
  old_deletes :: "hash_key list"
  chart_updated :: bool
  chart_hash :: "hash option"
  jacket_hash :: "hash option"
  v1_hash :: "hash option"
  v3_hash :: "hash option"
  audio_hash :: "hash option"
  preview_hash :: "hash option"
  background_hash :: "hash option"

definition init_locals :: locals where
  "init_locals =
     \<lparr>s3_uploads = [], old_deletes = [], chart_updated = False, chart_hash = None,
      jacket_hash = None, v1_hash = None, v3_hash = None, audio_hash = None,
      preview_hash = None, background_hash = None\<rparr>"

definition blob_path :: "string \<Rightarrow> string \<Rightarrow> string \<Rightarrow> string" where
  "blob_path owner cid h = owner @ ''/'' @ cid @ ''/'' @ h"

definition mk_file :: "session \<Rightarrow> string \<Rightarrow> hash \<Rightarrow> bytes \<Rightarrow> string \<Rightarrow> s3_file" where
  "mk_file sess cid h b ct =
     \<lparr>f_path = blob_path (sonolus_id sess) cid h, f_hash = h, f_bytes = b,
      f_content_type = ct\<rparr>"

definition too_large :: exn where
  "too_large = HTTPException 413 ''Uploaded files exceed file size limit.''"

definition unexpected_file :: exn where
  "unexpected_file = HTTPException 400 ''Includes unexpected file.''"

definition file_not_found :: exn where
  "file_not_found = HTTPException 400 ''File not found.''"

definition delete_and_include :: exn where
  "delete_and_include = HTTPException 400 ''Can't delete and include.''"

definition invalid_format :: exn where
  "invalid_format = HTTPException 400 ''Invalid file format.''"

text \<open>Lines 83 to 160: the chart script.\<close>

definition chart_step ::
  "env \<Rightarrow> session \<Rightarrow> string \<Rightarrow> ChartEditData \<Rightarrow> chart_row \<Rightarrow> UploadFile option \<Rightarrow> locals
   \<Rightarrow> exn + locals" where
  "chart_step env sess cid d old cf L =
     (case cf of
        Some f \<Rightarrow>
          if file_size f > MAX_FILE_SIZES_chart then Inl too_large
          else if includes_chart d then
            (case detect_edit env (file_bytes f) of
               None \<Rightarrow> Inl invalid_format
             | Some result \<Rightarrow>
                 (case convert_edit env result (file_bytes f) of
                    Inl e \<Rightarrow> Inl (HTTPException 400 (exn_str env e))
                  | Inr chart_bytes \<Rightarrow>
                      let h = calculate_sha1 env chart_bytes;
                          L1 = L\<lparr>chart_hash := Some h\<rparr>;
                          L2 = (if h \<noteq> chart_file_hash old then
                                  L1\<lparr>s3_uploads := s3_uploads L1 @
                                         [mk_file sess cid h chart_bytes ''application/gzip''],
                                     old_deletes := old_deletes L1 @ [K_chart_file_hash]\<rparr>
                                else L1)
                      in Inr (L2\<lparr>chart_updated := True\<rparr>)))
          else Inl unexpected_file
      | None \<Rightarrow> if includes_chart d then Inl file_not_found else Inr L)"

text \<open>
  Lines 161 to 212: the jacket. The stored hash is compared with the hash of the bytes
  as submitted; only when they differ are the bytes resized and the three hash variables
  assigned.
\<close>

definition jacket_step ::
  "env \<Rightarrow> session \<Rightarrow> string \<Rightarrow> ChartEditData \<Rightarrow> chart_row \<Rightarrow> UploadFile option \<Rightarrow> locals
   \<Rightarrow> exn + locals" where
  "jacket_step env sess cid d old jf L =
     (case jf of
        Some f \<Rightarrow>
          if file_size f > MAX_FILE_SIZES_jacket then Inl too_large
          else if includes_jacket d then
            (case get_and_check_file env f ''image'' of
               Inl e \<Rightarrow> Inl e
             | Inr raw \<Rightarrow>
                 let h0 = calculate_sha1 env raw; L1 = L\<lparr>jacket_hash := Some h0\<rparr> in
                 if h0 \<noteq> jacket_file_hash old then
                   (case generate_backgrounds_resize_jacket env raw of
                      Inl e \<Rightarrow> Inl e
                    | Inr (v1, v3, jacket_bytes) \<Rightarrow>
                        let hj = calculate_sha1 env jacket_bytes;
                            h1 = calculate_sha1 env v1;
                            h3 = calculate_sha1 env v3
                        in Inr (L1\<lparr>old_deletes := old_deletes L1 @
                                     [K_jacket_file_hash, K_background_v1_file_hash,
                                      K_background_v3_file_hash],
                                   jacket_hash := Some hj,
                                   s3_uploads := s3_uploads L1 @
                                     [mk_file sess cid hj jacket_bytes ''image/png'',
                                      mk_file sess cid h1 v1 ''image/png'',
                                      mk_file sess cid h3 v3 ''image/png''],
                                   v1_hash := Some h1,
                                   v3_hash := Some h3\<rparr>))
                 else Inr L1)
          else Inl unexpected_file
      | None \<Rightarrow> if includes_jacket d then Inl file_not_found else Inr L)"

text \<open>Lines 213 to 242: the audio.\<close>

definition audio_step ::
  "env \<Rightarrow> session \<Rightarrow> string \<Rightarrow> ChartEditData \<Rightarrow> chart_row \<Rightarrow> UploadFile option \<Rightarrow> locals
   \<Rightarrow> exn + locals" where
  "audio_step env sess cid d old af L =
     (case af of
        Some f \<Rightarrow>
          if file_size f > MAX_FILE_SIZES_audio then Inl too_large
          else if includes_audio d then
            (case get_and_check_file env f ''audio/mpeg'' of
               Inl e \<Rightarrow> Inl e
             | Inr audio_bytes \<Rightarrow>
                 let h = calculate_sha1 env audio_bytes;
                     L1 = L\<lparr>audio_hash := Some h\<rparr>;
                     L2 = (if h \<noteq> music_file_hash old then
                             L1\<lparr>s3_uploads := s3_uploads L1 @
                                    [mk_file sess cid h audio_bytes ''audio/mpeg''],
                                old_deletes := old_deletes L1 @ [K_music_file_hash]\<rparr>
                           else L1)
                 in Inr (L2\<lparr>chart_updated := True\<rparr>))
          else Inl unexpected_file
      | None \<Rightarrow> if includes_audio d then Inl file_not_found else Inr L)"

text \<open>Lines 243 to 278: the optional preview.\<close>

definition preview_step ::
  "env \<Rightarrow> session \<Rightarrow> string \<Rightarrow> ChartEditData \<Rightarrow> chart_row \<Rightarrow> UploadFile option \<Rightarrow> locals
   \<Rightarrow> exn + locals" where
  "preview_step env sess cid d old pf L =
     (case pf of
        Some f \<Rightarrow>
          if file_size f > MAX_FILE_SIZES_preview then Inl too_large
          else if includes_preview d \<and> \<not> delete_preview d then
            (case get_and_check_file env f ''audio/mpeg'' of
               Inl e \<Rightarrow> Inl e
             | Inr preview_bytes \<Rightarrow>
                 let h = calculate_sha1 env preview_bytes;
                     L1 = L\<lparr>preview_hash := Some h\<rparr>
                 in Inr (if Some h \<noteq> preview_file_hash old then
                           L1\<lparr>s3_uploads := s3_uploads L1 @
                                  [mk_file sess cid h preview_bytes ''audio/mpeg''],
                              old_deletes := old_deletes L1 @ [K_preview_file_hash]\<rparr>
                         else L1))
          else if delete_preview d then Inl delete_and_include
          else Inl unexpected_file
      | None \<Rightarrow>
          if delete_preview d \<and> \<not> includes_preview d then
            Inr (L\<lparr>old_deletes := old_deletes L @ [K_preview_file_hash]\<rparr>)
          else if includes_preview d then Inl file_not_found
          else Inr L)"

text \<open>Lines 279 to 314: the optional background.\<close>

definition background_step ::
  "env \<Rightarrow> session \<Rightarrow> string \<Rightarrow> ChartEditData \<Rightarrow> chart_row \<Rightarrow> UploadFile option \<Rightarrow> locals
   \<Rightarrow> exn + locals" where
  "background_step env sess cid d old bf L =
     (case bf of
        Some f \<Rightarrow>
          if file_size f > MAX_FILE_SIZES_background then Inl too_large
          else if includes_background d \<and> \<not> delete_background d then
            (case get_and_check_file env f ''image/png'' of
               Inl e \<Rightarrow> Inl e
             | Inr background_bytes \<Rightarrow>
                 let h = calculate_sha1 env background_bytes;
                     L1 = L\<lparr>background_hash := Some h\<rparr>
                 in Inr (if Some h \<noteq> background_file_hash old then
                           L1\<lparr>s3_uploads := s3_uploads L1 @
                                  [mk_file sess cid h background_bytes ''image/png''],
                              old_deletes := old_deletes L1 @ [K_background_file_hash]\<rparr>
                         else L1))
          else if delete_background d then Inl delete_and_include
          else Inl unexpected_file
      | None \<Rightarrow>
          if delete_background d \<and> \<not> includes_background d then
            Inr (L\<lparr>old_deletes := old_deletes L @ [K_background_file_hash]\<rparr>)
          else if includes_background d then Inl file_not_found
          else Inr L)"

text \<open>Lines 80 to 314 in sequence; the first exception ends the request.\<close>

definition process_files ::
  "env \<Rightarrow> session \<Rightarrow> ChartEditData \<Rightarrow> edit_request \<Rightarrow> chart_row \<Rightarrow> exn + locals" where
  "process_files env sess d req old =
     (case chart_step env sess (req_id req) d old (chart_file req) init_locals of
        Inl e \<Rightarrow> Inl e
      | Inr L1 \<Rightarrow>
     (case jacket_step env sess (req_id req) d old (jacket_image req) L1 of
        Inl e \<Rightarrow> Inl e
      | Inr L2 \<Rightarrow>
     (case audio_step env sess (req_id req) d old (audio_file req) L2 of
        Inl e \<Rightarrow> Inl e
      | Inr L3 \<Rightarrow>
     (case preview_step env sess (req_id req) d old (preview_file req) L3 of
        Inl e \<Rightarrow> Inl e
      | Inr L4 \<Rightarrow> background_step env sess (req_id req) d old (background_image req) L4))))"

subsection \<open>Which old blobs to delete (lines 316 to 337)\<close>

text \<open>
  Python's sets are lists here, read through \<open>set\<close>. Every one of the seven names is a
  field of the fetched row's model, so the \<^verbatim>\<open>model_fields\<close> filter keeps them all.
\<close>

definition all_hash_keys :: "hash_key list" where
  "all_hash_keys =
     [K_background_file_hash, K_background_v1_file_hash, K_background_v3_file_hash,
      K_jacket_file_hash, K_chart_file_hash, K_music_file_hash, K_preview_file_hash]"

definition kept_hash_keys :: "hash_key list \<Rightarrow> hash_key list" where
  "kept_hash_keys dels = filter (\<lambda>k. k \<notin> set dels) all_hash_keys"

definition kept_hashes :: "chart_row \<Rightarrow> hash_key list \<Rightarrow> hash option list" where
  "kept_hashes old dels = map (getattr_hash old) (kept_hash_keys dels)"

definition deleted_candidate_hashes :: "chart_row \<Rightarrow> hash_key list \<Rightarrow> hash option list" where
  "deleted_candidate_hashes old dels = map (getattr_hash old) dels"

definition deleted_hashes :: "chart_row \<Rightarrow> hash_key list \<Rightarrow> hash option list" where
  "deleted_hashes old dels =
     remdups (filter (\<lambda>h. h \<notin> set (kept_hashes old dels)) (deleted_candidate_hashes old dels))"

subsection \<open>The blob batch (lines 338 to 371)\<close>

text \<open>Formatting a hash into a key: \<^verbatim>\<open>None\<close> prints as the word.\<close>

definition str_hash :: "hash option \<Rightarrow> string" where
  "str_hash h = (case h of None \<Rightarrow> ''None'' | Some s \<Rightarrow> s)"

text \<open>
  The delete loop. Its \<^verbatim>\<open>alr_deleted_hashes\<close> list is never appended to, so the
  membership test never skips anything.
\<close>

definition delete_tasks :: "session \<Rightarrow> string \<Rightarrow> hash option list \<Rightarrow> s3_task list" where
  "delete_tasks sess cid hs = map (\<lambda>h. Delete (blob_path (sonolus_id sess) cid (str_hash h))) hs"

text \<open>The upload loop with its \<^verbatim>\<open>alr_added_hashes\<close> list.\<close>

fun upload_tasks :: "hash list \<Rightarrow> s3_file list \<Rightarrow> s3_task list" where
  "upload_tasks alr [] = []"
| "upload_tasks alr (f # fs) =
     (if f_hash f \<in> set alr then upload_tasks alr fs
      else Upload (f_path f) (f_bytes f) (f_content_type f) # upload_tasks (alr @ [f_hash f]) fs)"

definition replay_prefix :: "chart_row \<Rightarrow> string" where
  "replay_prefix old = row_author old @ ''/'' @ row_id old @ ''/replays/''"

text \<open>
  The listing under the replay prefix is awaited while the batch is built; everything
  else runs in the one gather. The whole block is skipped when there is neither a hash
  to delete nor a file to upload. Opening the bucket and naming an object send no
  request and are not operations of the trace.
\<close>

definition s3_block :: "world \<Rightarrow> session \<Rightarrow> string \<Rightarrow> chart_row \<Rightarrow> locals \<Rightarrow> event list" where
  "s3_block w sess cid old L =
     (let dh = deleted_hashes old (old_deletes L) in
      if dh \<noteq> [] \<or> s3_uploads L \<noteq> [] then
        (if chart_updated L then [ListObjects (replay_prefix old)] else []) @
        [Gather (delete_tasks sess cid dh @ upload_tasks [] (s3_uploads L) @
                 (if chart_updated L then map Delete (replay_objects w) else []))]
      else [])"

subsection \<open>The two statements of the commit (lines 372 to 410)\<close>

text \<open>
  \<^verbatim>\<open>description.strip() != ""\<close> fails exactly on a string of whitespace only
  (the ASCII whitespace of \<^verbatim>\<open>str.strip\<close>).
\<close>

definition is_blank :: "string \<Rightarrow> bool" where
  "is_blank s =
     list_all (\<lambda>c. c \<in> set [CHR '' '', CHR 0x09, CHR 0x0A, CHR 0x0B, CHR 0x0C, CHR 0x0D,
                            CHR 0x1C, CHR 0x1D, CHR 0x1E, CHR 0x1F]) s"

definition has_description :: "ChartEditData \<Rightarrow> bool" where
  "has_description d = (case description d of None \<Rightarrow> False | Some s \<Rightarrow> s \<noteq> [] \<and> \<not> is_blank s)"

definition build_query :: "string \<Rightarrow> ChartEditData \<Rightarrow> query" where
  "build_query cid d =
     update_metadata
       \<lparr>m_chart_id = cid, m_chart_author = author d, m_rating = rating d, m_title = title d,
        m_artists = artists d,
        m_tags = (case tags d of None \<Rightarrow> None | Some ts \<Rightarrow> if ts = [] then None else Some ts),
        m_description = (if has_description d then description d else None),
        m_update_none_description = (if has_description d then False else True)\<rparr>"

text \<open>
  \<^verbatim>\<open>x if flag and file else None\<close>: the variable is read only when the condition
  holds, and reading an unassigned one raises.
\<close>

definition read_if :: "bool \<Rightarrow> string \<Rightarrow> hash option \<Rightarrow> exn + hash option" where
  "read_if c name v =
     (if c then (case v of None \<Rightarrow> Inl (UnboundLocalError name) | Some h \<Rightarrow> Inr (Some h))
      else Inr None)"

definition build_query2 :: "ChartEditData \<Rightarrow> edit_request \<Rightarrow> locals \<Rightarrow> exn + query" where
  "build_query2 d req L =
     (let cj = includes_jacket d \<and> jacket_image req \<noteq> None in
     (case read_if cj ''jacket_hash'' (jacket_hash L) of Inl e \<Rightarrow> Inl e | Inr a1 \<Rightarrow>
     (case read_if cj ''v1_hash'' (v1_hash L) of Inl e \<Rightarrow> Inl e | Inr a2 \<Rightarrow>
     (case read_if cj ''v3_hash'' (v3_hash L) of Inl e \<Rightarrow> Inl e | Inr a3 \<Rightarrow>
     (case read_if (includes_audio d \<and> audio_file req \<noteq> None) ''audio_hash'' (audio_hash L) of
        Inl e \<Rightarrow> Inl e | Inr a4 \<Rightarrow>
     (case read_if (includes_chart d \<and> chart_file req \<noteq> None) ''chart_hash'' (chart_hash L) of
        Inl e \<Rightarrow> Inl e | Inr a5 \<Rightarrow>
     (case read_if (includes_preview d \<and> preview_file req \<noteq> None) ''preview_hash''
             (preview_hash L) of
        Inl e \<Rightarrow> Inl e | Inr a6 \<Rightarrow>
     (case read_if (includes_background d \<and> background_image req \<noteq> None) ''background_hash''
             (background_hash L) of
        Inl e \<Rightarrow> Inl e | Inr a7 \<Rightarrow>
      Inr (update_file_hash
             \<lparr>h_chart_id = req_id req, h_jacket_hash = a1, h_v1_hash = a2, h_v3_hash = a3,
              h_music_hash = a4, h_chart_hash = a5, h_preview_hash = a6,
              h_background_hash = a7, h_confirm_change = True,
              h_update_none_preview = delete_preview d,
              h_update_none_background = delete_background d\<rparr>)))))))))"

text \<open>Lines 316 to 410: the batch, then the commit.\<close>

definition finish ::
  "world \<Rightarrow> session \<Rightarrow> ChartEditData \<Rightarrow> edit_request \<Rightarrow> chart_row \<Rightarrow> locals \<Rightarrow> event list
   \<Rightarrow> event list \<times> (exn + string)" where
  "finish w sess d req old L tr0 =
     (let blk = s3_block w sess (req_id req) old L; tr1 = tr0 @ blk in
      if blk \<noteq> [] \<and> gather_raises w then (tr1, Inl (ExternalError ''gather''))
      else
        (case build_query2 d req L of
           Inl e \<Rightarrow> (tr1, Inl e)
         | Inr query2 \<Rightarrow>
             if execute_raises w then
               (tr1 @ [Execute (build_query (req_id req) d)], Inl (ExternalError ''execute''))
             else
               (tr1 @ [Execute (build_query (req_id req) d), Execute query2] @
                  (if chart_updated L then [Execute (delete_leaderboards (row_id old))] else []),
                Inr ''success'')))"

text \<open>The handler \<^verbatim>\<open>main\<close> of \<^verbatim>\<open>edit.py\<close>.\<close>

definition edit_main ::
  "env \<Rightarrow> world \<Rightarrow> session \<Rightarrow> edit_request \<Rightarrow> event list \<times> (exn + string)" where
  "edit_main env w sess req =
     (if length (req_id req) \<noteq> 32 \<or> \<not> isalnum (req_id req) then
        ([], Inl (HTTPException 400 ''Invalid chart ID.''))
      else
        (case req_data req of
           Inl errs \<Rightarrow> ([], Inl (HTTPException 422 errs))
         | Inr d \<Rightarrow>
             if limits_exceeded d then ([], Inl (HTTPException 400 ''Length limits exceeded''))
             else
               (let tr0 = [SessionUser, Fetchrow (get_chart_by_id (req_id req))] in
                case fetchrow_chart w of
                  None \<Rightarrow> (tr0, Inl (HTTPException 404 ''Chart not found.''))
                | Some old \<Rightarrow>
                    if row_author old \<noteq> user_sonolus_id sess then
                      (tr0, Inl (HTTPException 403 ''bro this aint your chart''))
                    else
                      (case process_files env sess d req old of
                         Inl e \<Rightarrow> (tr0, Inl e)
                       | Inr L \<Rightarrow> finish w sess d req old L tr0))))"

section \<open>The upload handler\<close>

definition upload_limits_exceeded :: "ChartUploadData \<Rightarrow> bool" where
  "upload_limits_exceeded d =
     (too_long (u_description d) MAX_TEXT_SIZES_description
      \<or> length (u_artists d) > MAX_TEXT_SIZES_artists
      \<or> length (u_title d) > MAX_TEXT_SIZES_title
      \<or> length (u_author d) > MAX_TEXT_SIZES_author
      \<or> (case u_tags d of None \<Rightarrow> False
          | Some ts \<Rightarrow> list_ex (\<lambda>tag. length tag > MAX_TEXT_SIZES_per_tag) ts)
      \<or> (case u_tags d of None \<Rightarrow> False | Some ts \<Rightarrow> length ts > MAX_TEXT_SIZES_tags_count)
      \<or> u_rating d > MAX_RATINGS_max
      \<or> u_rating d < MAX_RATINGS_min)"

fun str_nat :: "nat \<Rightarrow> string" where
  "str_nat n =
     (if n < 10 then [char_of (48 + n)] else str_nat (n div 10) @ [char_of (48 + n mod 10)])"

text \<open>
  Lines 97 to 106: the cooldown, skipped in debug mode. Times are whole seconds; the
  result is the exception to raise, if any.
\<close>

definition cooldown_check :: "env \<Rightarrow> world \<Rightarrow> session \<Rightarrow> exn option" where
  "cooldown_check env w sess =
     (case chart_upload_cooldown sess of
        None \<Rightarrow> None
      | Some cooldown \<Rightarrow>
          if \<not> app_debug env \<and> now w < cooldown then
            (let remaining = nat (cooldown - now w) in
             Some (HTTPException 429
                     (''On cooldown. Time remaining: '' @ str_nat (remaining div 60) @ ''m '' @
                      str_nat (remaining mod 60) @ ''s'')))
          else None)"

text \<open>Lines 107 to 127: the size limits, mandatory files first.\<close>

definition upload_sizes_exceeded :: "upload_request \<Rightarrow> bool" where
  "upload_sizes_exceeded req =
     ((file_size (up_jacket_image req) > MAX_FILE_SIZES_jacket
       \<or> file_size (up_chart_file req) > MAX_FILE_SIZES_chart
       \<or> file_size (up_audio_file req) > MAX_FILE_SIZES_audio)
      \<or> (case up_preview_file req of None \<Rightarrow> False
          | Some f \<Rightarrow> file_size f > MAX_FILE_SIZES_preview)
      \<or> (case up_background_image req of None \<Rightarrow> False
          | Some f \<Rightarrow> file_size f > MAX_FILE_SIZES_background))"

text \<open>
  The nested \<^verbatim>\<open>convert\<close> of the upload handler, over the five flags and the tag the
  detector returned beside \<^verbatim>\<open>valid\<close>.
\<close>

definition convert_upload ::
  "env \<Rightarrow> bool \<Rightarrow> bool \<Rightarrow> bool \<Rightarrow> bool \<Rightarrow> string \<Rightarrow> bytes \<Rightarrow> exn + bytes" where
  "convert_upload env sus usc leveldata compressed ld_type chart_bytes =
     (if sus then
        (case sus_load env chart_bytes of
           Inl e \<Rightarrow> Inl e
         | Inr sc \<Rightarrow> next_sekai_export env sc)
      else if usc then
        (case usc_load env chart_bytes of
           Inl e \<Rightarrow> Inl e
         | Inr sc \<Rightarrow> next_sekai_export env sc)
      else if leveldata then
        (if ld_type \<noteq> ''nextsekai'' \<and> \<not> app_debug env then
           Inl (HTTPException 400
                  (''Incorrect LevelData: '' @ ld_type @ '' (expected: NextSekai)''))
         else if \<not> compressed then Inr (gzip_write env ''LevelData'' 0 chart_bytes)
         else Inr chart_bytes)
      else Inl (UnboundLocalError ''converted''))"

text \<open>Lines 164 to 216: detection and conversion of the script, giving the stored bytes.\<close>

definition upload_chart_bytes :: "env \<Rightarrow> bytes \<Rightarrow> exn + bytes" where
  "upload_chart_bytes env raw =
     (case detect_upload env raw of
        (valid, sus, usc, leveldata, compressed, ld_type) \<Rightarrow>
          if \<not> valid then Inl invalid_format
          else
            (case convert_upload env sus usc leveldata compressed ld_type raw of
               Inl e \<Rightarrow> Inl (HTTPException 400 (exn_str env e))
             | Inr chart_bytes \<Rightarrow> Inr chart_bytes))"

definition opt_file :: "env \<Rightarrow> UploadFile option \<Rightarrow> string \<Rightarrow> exn + bytes option" where
  "opt_file env f ct =
     (case f of
        None \<Rightarrow> Inr None
      | Some g \<Rightarrow> (case get_and_check_file env g ct of Inl e \<Rightarrow> Inl e | Inr b \<Rightarrow> Inr (Some b)))"

text \<open>
  Lines 129 to 251: every file is read, checked, converted and hashed; the result is the
  \<^verbatim>\<open>s3_uploads\<close> list and the row to insert.
\<close>

definition upload_files ::
  "env \<Rightarrow> session \<Rightarrow> string \<Rightarrow> ChartUploadData \<Rightarrow> upload_request
   \<Rightarrow> exn + (s3_file list \<times> Chart)" where
  "upload_files env sess cid d req =
     (case get_and_check_file env (up_jacket_image req) ''image'' of Inl e \<Rightarrow> Inl e | Inr raw \<Rightarrow>
     (case generate_backgrounds_resize_jacket env raw of Inl e \<Rightarrow> Inl e
      | Inr (v1, v3, jacket_bytes) \<Rightarrow>
     (case upload_chart_bytes env (file_bytes (up_chart_file req)) of Inl e \<Rightarrow> Inl e
      | Inr chart_bytes \<Rightarrow>
     (case get_and_check_file env (up_audio_file req) ''audio/mpeg'' of Inl e \<Rightarrow> Inl e
      | Inr audio_bytes \<Rightarrow>
     (case opt_file env (up_preview_file req) ''audio/mpeg'' of Inl e \<Rightarrow> Inl e
      | Inr preview_bytes \<Rightarrow>
     (case opt_file env (up_background_image req) ''image/png'' of Inl e \<Rightarrow> Inl e
      | Inr background_bytes \<Rightarrow>
        let sha = calculate_sha1 env in
        Inr ([mk_file sess cid (sha v1) v1 ''image/png'',
              mk_file sess cid (sha v3) v3 ''image/png'',
              mk_file sess cid (sha jacket_bytes) jacket_bytes ''image/png'',
              mk_file sess cid (sha chart_bytes) chart_bytes ''application/gzip'',
              mk_file sess cid (sha audio_bytes) audio_bytes ''audio/mpeg''] @
             (case preview_bytes of None \<Rightarrow> []
              | Some b \<Rightarrow> [mk_file sess cid (sha b) b ''audio/mpeg'']) @
             (case background_bytes of None \<Rightarrow> []
              | Some b \<Rightarrow> [mk_file sess cid (sha b) b ''image/png'']),
             \<lparr>c_id = cid, c_author = sonolus_id sess, c_rating = u_rating d,
              c_chart_author = u_author d, c_title = u_title d, c_artists = u_artists d,
              c_jacket_file_hash = sha jacket_bytes, c_music_file_hash = sha audio_bytes,
              c_chart_file_hash = sha chart_bytes, c_background_v1_file_hash = sha v1,
              c_background_v3_file_hash = sha v3,
              c_tags = (case u_tags d of None \<Rightarrow> [] | Some ts \<Rightarrow> ts),
              c_description = u_description d,
              c_preview_file_hash = map_option sha preview_bytes,
              c_background_file_hash = map_option sha background_bytes\<rparr>)))))))"

text \<open>
  The handler \<^verbatim>\<open>main\<close> of \<^verbatim>\<open>upload.py\<close>. The block under \<^verbatim>\<open>if False\<close>
  (lines 65 to 95) never runs and has no counterpart here.
\<close>

definition upload_main ::
  "env \<Rightarrow> world \<Rightarrow> session \<Rightarrow> upload_request \<Rightarrow> event list \<times> (exn + string)" where
  "upload_main env w sess req =
     (case up_data req of
        Inl errs \<Rightarrow> ([], Inl (HTTPException 422 errs))
      | Inr d \<Rightarrow>
          if upload_limits_exceeded d then
            ([], Inl (HTTPException 400 ''Length limits exceeded''))
          else
            (case cooldown_check env w sess of
               Some e \<Rightarrow> ([SessionUser], Inl e)
             | None \<Rightarrow>
                 if upload_sizes_exceeded req then ([SessionUser], Inl too_large)
                 else
                   (let chart_id = filter (\<lambda>c. c \<noteq> CHR ''-'') (uuid4 w) in
                    case upload_files env sess chart_id d req of
                      Inl e \<Rightarrow> ([SessionUser], Inl e)
                    | Inr (uploads, chart) \<Rightarrow>
                        if gather_raises w then
                          ([SessionUser, Gather (upload_tasks [] uploads)],
                           Inl (ExternalError ''gather''))
                        else
                          (case fetchrow_create w of
                             Some rid \<Rightarrow>
                               ([SessionUser, Gather (upload_tasks [] uploads),
                                 Fetchrow (create_chart chart),
                                 Execute (update_cooldown (sonolus_id sess) 1)],
                                Inr rid)
                           | None \<Rightarrow>
                               ([SessionUser, Gather (upload_tasks [] uploads),
                                 Fetchrow (create_chart chart)],
                                Inl (HTTPException 500
                                       ''Error while processing upload result.''))))))"

declare str_nat.simps [simp del]

section \<open>Reading a trace\<close>

text \<open>Which operations touch the object store, and which are statements of a commit.\<close>

fun is_s3 :: "event \<Rightarrow> bool" where
  "is_s3 (ListObjects p) = True"
| "is_s3 (Gather ts) = True"
| "is_s3 ev = False"

fun is_commit :: "event \<Rightarrow> bool" where
  "is_commit (Execute q) = True"
| "is_commit ev = False"

text \<open>The keys of the create operations of a batch, in order.\<close>

fun upload_keys :: "s3_task list \<Rightarrow> string list" where
  "upload_keys [] = []"
| "upload_keys (Upload k b ct # ts) = k # upload_keys ts"
| "upload_keys (Delete k # ts) = upload_keys ts"

text \<open>The hash pointers of an inserted row.\<close>

definition chart_hashes :: "Chart \<Rightarrow> hash list" where
  "chart_hashes c =
     [c_jacket_file_hash c, c_music_file_hash c, c_chart_file_hash c,
      c_background_v1_file_hash c, c_background_v3_file_hash c] @
     (case c_preview_file_hash c of None \<Rightarrow> [] | Some h \<Rightarrow> [h]) @
     (case c_background_file_hash c of None \<Rightarrow> [] | Some h \<Rightarrow> [h])"

text \<open>Every file of a list lies at the key its owner, chart and hash determine.\<close>

definition paths_ok :: "session \<Rightarrow> string \<Rightarrow> s3_file list \<Rightarrow> bool" where
  "paths_ok sess cid fs = list_all (\<lambda>f. f_path f = blob_path (sonolus_id sess) cid (f_hash f)) fs"

text \<open>The keys of all create operations of a trace, batch after batch.\<close>

fun trace_upload_keys :: "event list \<Rightarrow> string list" where
  "trace_upload_keys [] = []"
| "trace_upload_keys (Gather ts # evs) = upload_keys ts @ trace_upload_keys evs"
| "trace_upload_keys (ev # evs) = trace_upload_keys evs"

text \<open>
  The pointer a file-hash statement carries for a hash column, the local variable the
  edit handler holds for it, and whether the request submits that slot (flag and file).
\<close>

fun pointer_of :: "file_hash_args \<Rightarrow> hash_key \<Rightarrow> hash option" where
  "pointer_of a K_background_file_hash = h_background_hash a"
| "pointer_of a K_background_v1_file_hash = h_v1_hash a"
| "pointer_of a K_background_v3_file_hash = h_v3_hash a"
| "pointer_of a K_jacket_file_hash = h_jacket_hash a"
| "pointer_of a K_chart_file_hash = h_chart_hash a"
| "pointer_of a K_music_file_hash = h_music_hash a"
| "pointer_of a K_preview_file_hash = h_preview_hash a"

fun slot_local :: "locals \<Rightarrow> hash_key \<Rightarrow> hash option" where
  "slot_local L K_background_file_hash = background_hash L"
| "slot_local L K_background_v1_file_hash = v1_hash L"
| "slot_local L K_background_v3_file_hash = v3_hash L"
| "slot_local L K_jacket_file_hash = jacket_hash L"
| "slot_local L K_chart_file_hash = chart_hash L"
| "slot_local L K_music_file_hash = audio_hash L"
| "slot_local L K_preview_file_hash = preview_hash L"

fun slot_submitted :: "ChartEditData \<Rightarrow> edit_request \<Rightarrow> hash_key \<Rightarrow> bool" where
  "slot_submitted d req K_background_file_hash =
     (includes_background d \<and> background_image req \<noteq> None)"
| "slot_submitted d req K_background_v1_file_hash = (includes_jacket d \<and> jacket_image req \<noteq> None)"
| "slot_submitted d req K_background_v3_file_hash = (includes_jacket d \<and> jacket_image req \<noteq> None)"
| "slot_submitted d req K_jacket_file_hash = (includes_jacket d \<and> jacket_image req \<noteq> None)"
| "slot_submitted d req K_chart_file_hash = (includes_chart d \<and> chart_file req \<noteq> None)"
| "slot_submitted d req K_music_file_hash = (includes_audio d \<and> audio_file req \<noteq> None)"
| "slot_submitted d req K_preview_file_hash = (includes_preview d \<and> preview_file req \<noteq> None)"

text \<open>
  What holds of the locals once the slots in \<open>K\<close> are processed: the others are
  unassigned, an assigned hash belongs to a submitted slot and is the stored hash or that
  of a collected file, and every collected file carries the hash of some variable.
  \<open>step_effect\<close> is what one step on the slots \<open>K0\<close> contributes to that.
\<close>

definition locals_ok ::
  "ChartEditData \<Rightarrow> edit_request \<Rightarrow> chart_row \<Rightarrow> hash_key set \<Rightarrow> locals \<Rightarrow> bool" where
  "locals_ok d req old K L =
     ((\<forall>k. k \<notin> K \<longrightarrow> slot_local L k = None)
      \<and> (\<forall>k h. slot_local L k = Some h \<longrightarrow>
            slot_submitted d req k \<and>
            (Some h = getattr_hash old k \<or> h \<in> f_hash ` set (s3_uploads L)))
      \<and> (\<forall>f \<in> set (s3_uploads L). \<exists>k. slot_local L k = Some (f_hash f)))"

definition step_effect ::
  "ChartEditData \<Rightarrow> edit_request \<Rightarrow> chart_row \<Rightarrow> hash_key set \<Rightarrow> locals \<Rightarrow> locals \<Rightarrow> bool" where
  "step_effect d req old K0 L L' =
     (set (s3_uploads L) \<subseteq> set (s3_uploads L')
      \<and> (\<forall>k. k \<notin> K0 \<longrightarrow> slot_local L' k = slot_local L k)
      \<and> (\<forall>k h. k \<in> K0 \<longrightarrow> slot_local L' k = Some h \<longrightarrow>
            slot_submitted d req k \<and>
            (Some h = getattr_hash old k \<or> h \<in> f_hash ` set (s3_uploads L')))
      \<and> (\<forall>f \<in> set (s3_uploads L'). f \<in> set (s3_uploads L) \<or>
            (\<exists>k. k \<in> K0 \<and> slot_local L' k = Some (f_hash f))))"

section \<open>Sample data\<close>

text \<open>
  Concrete collaborators, rows and requests on which the theorems below are exercised.
  The sample digest is the identity on byte strings, the sample resizer prefixes its input
  three ways, the sample detector knows one marker, and the sample gzip writer prepends a
  textual header, which the sample reader strips again.
\<close>

definition sample_env :: env where
  "sample_env =
     \<lparr>calculate_sha1 = (\<lambda>b. b),
      get_and_check_file = (\<lambda>f ct. Inr (file_bytes f)),
      generate_backgrounds_resize_jacket = (\<lambda>b. Inr (''1'' @ b, ''3'' @ b, ''j'' @ b)),
      detect_edit = (\<lambda>b. if prefix ''LVD'' b then Some (''lvd'', ''pysekai'') else None),
      detect_upload =
        (\<lambda>b. if prefix ''LVD'' b then (True, False, False, True, False, ''nextsekai'')
             else (False, False, False, False, False, [])),
      sus_load = (\<lambda>b. Inl (ExternalError ''sus'')),
      usc_load = (\<lambda>b. Inl (ExternalError ''usc'')),
      next_sekai_export = (\<lambda>sc. Inl (ExternalError ''export'')),
      gzip_write = (\<lambda>fn mt b. ''gz:'' @ fn @ '':'' @ b),
      exn_str = (\<lambda>e. case e of HTTPException c m \<Rightarrow> m | UnboundLocalError n \<Rightarrow> n
                        | ExternalError m \<Rightarrow> m),
      app_debug = False\<rparr>"

definition sample_gunzip :: "bytes \<Rightarrow> bytes option" where
  "sample_gunzip s =
     (if prefix ''gz:LevelData:'' s then Some (drop (length ''gz:LevelData:'') s) else None)"

definition sample_row :: chart_row where
  "sample_row =
     \<lparr>row_id = ''0123456789abcdef0123456789abcdef'', row_author = ''u1'',
      jacket_file_hash = ''jX'', music_file_hash = ''A'', chart_file_hash = ''Hc'',
      background_v1_file_hash = ''1X'', background_v3_file_hash = ''3X'',
      preview_file_hash = None, background_file_hash = Some ''1X''\<rparr>"

definition jacket_group :: "hash_key list" where
  "jacket_group = [K_jacket_file_hash, K_background_v1_file_hash, K_background_v3_file_hash]"

definition sample_world :: world where
  "sample_world =
     \<lparr>fetchrow_chart = Some sample_row,
      replay_objects = [''u1/0123456789abcdef0123456789abcdef/replays/r1''],
      gather_raises = False, execute_raises = False,
      uuid4 = ''01234567-89ab-cdef-0123-456789abcdef'', now = 100,
      fetchrow_create = Some ''0123456789abcdef0123456789abcdef''\<rparr>"

definition sample_session :: session where
  "sample_session =
     \<lparr>sonolus_id = ''u1'', user_sonolus_id = ''u1'', chart_upload_cooldown = None\<rparr>"

definition no_change :: ChartEditData where
  "no_change =
     \<lparr>author = None, rating = None, title = None, artists = None, description = None,
      tags = Some [], includes_background = False, includes_preview = False,
      delete_background = False, delete_preview = False, includes_audio = False,
      includes_jacket = False, includes_chart = False\<rparr>"

definition no_files :: edit_request where
  "no_files =
     \<lparr>req_id = ''0123456789abcdef0123456789abcdef'', req_data = Inr no_change,
      jacket_image = None, chart_file = None, audio_file = None, preview_file = None,
      background_image = None\<rparr>"

text \<open>The stored audio again; other audio; the image the stored jacket was made from.\<close>

definition same_audio :: edit_request where
  "same_audio =
     no_files\<lparr>req_data := Inr (no_change\<lparr>includes_audio := True\<rparr>),
              audio_file := Some \<lparr>file_size = 1, file_bytes = ''A''\<rparr>\<rparr>"

definition new_audio :: edit_request where
  "new_audio =
     no_files\<lparr>req_data := Inr (no_change\<lparr>includes_audio := True\<rparr>),
              audio_file := Some \<lparr>file_size = 1, file_bytes = ''B''\<rparr>\<rparr>"

definition same_jacket :: edit_request where
  "same_jacket =
     no_files\<lparr>req_data := Inr (no_change\<lparr>includes_jacket := True\<rparr>),
              jacket_image := Some \<lparr>file_size = 1, file_bytes = ''X''\<rparr>\<rparr>"

text \<open>The stored jacket itself, byte for byte.\<close>

definition stored_jacket :: edit_request where
  "stored_jacket =
     no_files\<lparr>req_data := Inr (no_change\<lparr>includes_jacket := True\<rparr>),
              jacket_image := Some \<lparr>file_size = 2, file_bytes = ''jX''\<rparr>\<rparr>"

text \<open>A new jacket and a new background that is byte for byte its first variant.\<close>

definition jacket_and_background :: edit_request where
  "jacket_and_background =
     no_files\<lparr>req_data := Inr (no_change\<lparr>includes_jacket := True, includes_background := True\<rparr>),
              jacket_image := Some \<lparr>file_size = 1, file_bytes = ''Y''\<rparr>,
              background_image := Some \<lparr>file_size = 2, file_bytes = ''1Y''\<rparr>\<rparr>"

text \<open>Audio of one byte more than the limit; an audio flag with no file; an unknown script.\<close>

definition big_audio :: edit_request where
  "big_audio =
     no_files\<lparr>req_data := Inr (no_change\<lparr>includes_audio := True\<rparr>),
              audio_file := Some \<lparr>file_size = 52428801, file_bytes = ''B''\<rparr>\<rparr>"

definition flag_without_file :: edit_request where
  "flag_without_file = no_files\<lparr>req_data := Inr (no_change\<lparr>includes_audio := True\<rparr>)\<rparr>"

definition unknown_script :: edit_request where
  "unknown_script =
     no_files\<lparr>req_data := Inr (no_change\<lparr>includes_chart := True\<rparr>),
              chart_file := Some \<lparr>file_size = 3, file_bytes = ''???''\<rparr>\<rparr>"

definition sample_upload_data :: ChartUploadData where
  "sample_upload_data =
     \<lparr>u_rating = 10, u_title = ''t'', u_author = ''a'', u_artists = ''b'', u_tags = Some [],
      u_description = None, u_includes_background = False, u_includes_preview = False\<rparr>"

text \<open>An upload whose background image is byte for byte the first jacket variant.\<close>

definition sample_upload :: upload_request where
  "sample_upload =
     \<lparr>up_data = Inr sample_upload_data,
      up_jacket_image = \<lparr>file_size = 1, file_bytes = ''X''\<rparr>,
      up_chart_file = \<lparr>file_size = 4, file_bytes = ''LVD1''\<rparr>,
      up_audio_file = \<lparr>file_size = 1, file_bytes = ''A''\<rparr>,
      up_preview_file = None,
      up_background_image = Some \<lparr>file_size = 2, file_bytes = ''1X''\<rparr>\<rparr>"

definition big_upload :: upload_request where
  "big_upload = sample_upload\<lparr>up_audio_file := \<lparr>file_size = 52428801, file_bytes = ''A''\<rparr>\<rparr>"

definition unknown_upload :: upload_request where
  "unknown_upload = sample_upload\<lparr>up_chart_file := \<lparr>file_size = 3, file_bytes = ''???''\<rparr>\<rparr>"

section \<open>Diff correctness\<close>

lemma all_hash_keys_complete: "k \<in> set all_hash_keys"
  by (cases k) (simp_all add: all_hash_keys_def)

lemma kept_slot_hash_is_kept:
  "k \<notin> set dels \<Longrightarrow> getattr_hash old k \<in> set (kept_hashes old dels)"
  using all_hash_keys_complete [of k] by (simp add: kept_hashes_def kept_hash_keys_def)

lemma deleted_not_kept:
  "h \<in> set (deleted_hashes old dels) \<Longrightarrow> h \<notin> set (kept_hashes old dels)"
  by (simp add: deleted_hashes_def)

text \<open>
  C1. Whatever the stored row and whatever slots the edit marks as replaced or removed,
  the hashes selected for deletion are disjoint from the hashes of the kept slots, and
  the hash of any slot that is neither replaced nor removed (a derived jacket variant
  included) is not selected for deletion.
\<close>

theorem deleted_hashes_disjoint_kept:
  "set (deleted_hashes old dels) \<inter> set (kept_hashes old dels) = {} \<and>
   (\<forall>k. k \<notin> set dels \<longrightarrow> getattr_hash old k \<notin> set (deleted_hashes old dels))"
proof -
  have disj: "set (deleted_hashes old dels) \<inter> set (kept_hashes old dels) = {}"
    using deleted_not_kept [of _ old dels] by blast
  have "getattr_hash old k \<notin> set (deleted_hashes old dels)" if "k \<notin> set dels" for k
    using kept_slot_hash_is_kept [OF that, of old] deleted_not_kept by blast
  with disj show ?thesis by blast
qed

text \<open>
  On the sample row the background shares its hash with the first jacket variant:
  replacing the jacket group deletes the jacket and the other variant only.
\<close>

theorem deleted_hashes_disjoint_kept_witness:
  "set (deleted_hashes sample_row jacket_group) \<inter> set (kept_hashes sample_row jacket_group) = {} \<and>
   K_background_file_hash \<notin> set jacket_group \<and>
   getattr_hash sample_row K_background_file_hash = Some ''1X'' \<and>
   Some ''1X'' \<notin> set (deleted_hashes sample_row jacket_group) \<and>
   deleted_hashes sample_row jacket_group = [Some ''jX'', Some ''3X'']"
proof -
  have k: "K_background_file_hash \<notin> set jacket_group"
    by (simp add: jacket_group_def)
  have g: "getattr_hash sample_row K_background_file_hash = Some ''1X''"
    by (simp add: sample_row_def)
  have d: "deleted_hashes sample_row jacket_group = [Some ''jX'', Some ''3X'']"
    by (simp add: deleted_hashes_def kept_hashes_def kept_hash_keys_def all_hash_keys_def
        deleted_candidate_hashes_def sample_row_def jacket_group_def)
  from deleted_hashes_disjoint_kept [of sample_row jacket_group] k g d show ?thesis
    by (simp del: getattr_hash.simps)
qed

section \<open>The handlers on the samples\<close>

lemmas sample_defs = sample_env_def sample_row_def sample_world_def sample_session_def
  no_change_def no_files_def sample_upload_data_def sample_upload_def

lemmas limit_defs = limits_exceeded_def upload_limits_exceeded_def too_long_def
  MAX_TEXT_SIZES_description_def MAX_TEXT_SIZES_artists_def MAX_TEXT_SIZES_author_def
  MAX_TEXT_SIZES_title_def MAX_TEXT_SIZES_per_tag_def MAX_TEXT_SIZES_tags_count_def
  MAX_RATINGS_min_def MAX_RATINGS_max_def
  MAX_FILE_SIZES_jacket_def MAX_FILE_SIZES_chart_def MAX_FILE_SIZES_audio_def
  MAX_FILE_SIZES_preview_def MAX_FILE_SIZES_background_def

lemmas step_defs = process_files_def chart_step_def jacket_step_def audio_step_def
  preview_step_def background_step_def init_locals_def mk_file_def blob_path_def
  too_large_def unexpected_file_def file_not_found_def delete_and_include_def
  invalid_format_def convert_edit_def startswith_def endswith_def

lemmas finish_defs = finish_def s3_block_def deleted_hashes_def kept_hashes_def
  kept_hash_keys_def all_hash_keys_def deleted_candidate_hashes_def delete_tasks_def
  str_hash_def replay_prefix_def build_query_def build_query2_def read_if_def
  has_description_def is_blank_def

lemmas edit_defs = edit_main_def isalnum_def is_alnum_def limit_defs step_defs finish_defs

lemmas upload_defs = upload_main_def limit_defs cooldown_check_def upload_sizes_exceeded_def
  upload_files_def upload_chart_bytes_def convert_upload_def opt_file_def mk_file_def
  blob_path_def too_large_def invalid_format_def

lemma run_same_audio:
  "edit_main sample_env sample_world sample_session same_audio =
     ([SessionUser,
       Fetchrow (get_chart_by_id ''0123456789abcdef0123456789abcdef''),
       Execute (update_metadata
          \<lparr>m_chart_id = ''0123456789abcdef0123456789abcdef'',
           m_chart_author = None, m_rating = None, m_title = None,
           m_artists = None, m_tags = None, m_description = None,
           m_update_none_description = True\<rparr>),
       Execute (update_file_hash
          \<lparr>h_chart_id = ''0123456789abcdef0123456789abcdef'',
           h_jacket_hash = None, h_v1_hash = None, h_v3_hash = None,
           h_music_hash = Some ''A'', h_chart_hash = None,
           h_preview_hash = None, h_background_hash = None,
           h_confirm_change = True, h_update_none_preview = False,
           h_update_none_background = False\<rparr>),
       Execute (delete_leaderboards ''0123456789abcdef0123456789abcdef'')],
      Inr ''success'')"
  by (simp add: sample_defs same_audio_def edit_defs Let_def)

lemma run_new_audio_commit_fails:
  "edit_main sample_env (sample_world\<lparr>execute_raises := True\<rparr>) sample_session new_audio =
     ([SessionUser,
       Fetchrow (get_chart_by_id ''0123456789abcdef0123456789abcdef''),
       ListObjects ''u1/0123456789abcdef0123456789abcdef/replays/'',
       Gather
        [Delete ''u1/0123456789abcdef0123456789abcdef/A'',
         Upload ''u1/0123456789abcdef0123456789abcdef/B'' ''B'' ''audio/mpeg'',
         Delete ''u1/0123456789abcdef0123456789abcdef/replays/r1''],
       Execute (update_metadata
          \<lparr>m_chart_id = ''0123456789abcdef0123456789abcdef'',
           m_chart_author = None, m_rating = None, m_title = None,
           m_artists = None, m_tags = None, m_description = None,
           m_update_none_description = True\<rparr>)],
      Inl (ExternalError ''execute''))"
  by (simp add: sample_defs new_audio_def edit_defs Let_def)

lemma run_new_audio_batch_fails:
  "edit_main sample_env (sample_world\<lparr>gather_raises := True\<rparr>) sample_session new_audio =
     ([SessionUser,
       Fetchrow (get_chart_by_id ''0123456789abcdef0123456789abcdef''),
       ListObjects ''u1/0123456789abcdef0123456789abcdef/replays/'',
       Gather
        [Delete ''u1/0123456789abcdef0123456789abcdef/A'',
         Upload ''u1/0123456789abcdef0123456789abcdef/B'' ''B'' ''audio/mpeg'',
         Delete ''u1/0123456789abcdef0123456789abcdef/replays/r1'']],
      Inl (ExternalError ''gather''))"
  by (simp add: sample_defs new_audio_def edit_defs Let_def)

lemma run_same_jacket:
  "edit_main sample_env sample_world sample_session same_jacket =
     ([SessionUser,
       Fetchrow (get_chart_by_id ''0123456789abcdef0123456789abcdef''),
       Gather
        [Delete ''u1/0123456789abcdef0123456789abcdef/jX'',
         Delete ''u1/0123456789abcdef0123456789abcdef/3X'',
         Upload ''u1/0123456789abcdef0123456789abcdef/jX'' ''jX'' ''image/png'',
         Upload ''u1/0123456789abcdef0123456789abcdef/1X'' ''1X'' ''image/png'',
         Upload ''u1/0123456789abcdef0123456789abcdef/3X'' ''3X'' ''image/png''],
       Execute (update_metadata
          \<lparr>m_chart_id = ''0123456789abcdef0123456789abcdef'',
           m_chart_author = None, m_rating = None, m_title = None,
           m_artists = None, m_tags = None, m_description = None,
           m_update_none_description = True\<rparr>),
       Execute (update_file_hash
          \<lparr>h_chart_id = ''0123456789abcdef0123456789abcdef'',
           h_jacket_hash = Some ''jX'', h_v1_hash = Some ''1X'',
           h_v3_hash = Some ''3X'', h_music_hash = None, h_chart_hash = None,
           h_preview_hash = None, h_background_hash = None,
           h_confirm_change = True, h_update_none_preview = False,
           h_update_none_background = False\<rparr>)],
      Inr ''success'')"
  by (simp add: sample_defs same_jacket_def edit_defs Let_def)

lemma run_stored_jacket:
  "edit_main sample_env sample_world sample_session stored_jacket =
     ([SessionUser, Fetchrow (get_chart_by_id ''0123456789abcdef0123456789abcdef'')],
      Inl (UnboundLocalError ''v1_hash''))"
  by (simp add: sample_defs stored_jacket_def edit_defs Let_def)

lemma run_big_audio:
  "edit_main sample_env sample_world sample_session big_audio =
     ([SessionUser, Fetchrow (get_chart_by_id ''0123456789abcdef0123456789abcdef'')],
      Inl (HTTPException 413 ''Uploaded files exceed file size limit.''))"
  by (simp add: sample_defs big_audio_def edit_defs Let_def)

lemma run_flag_without_file:
  "edit_main sample_env sample_world sample_session flag_without_file =
     ([SessionUser, Fetchrow (get_chart_by_id ''0123456789abcdef0123456789abcdef'')],
      Inl (HTTPException 400 ''File not found.''))"
  by (simp add: sample_defs flag_without_file_def edit_defs Let_def)

lemma run_unknown_script:
  "edit_main sample_env sample_world sample_session unknown_script =
     ([SessionUser, Fetchrow (get_chart_by_id ''0123456789abcdef0123456789abcdef'')],
      Inl (HTTPException 400 ''Invalid file format.''))"
  by (simp add: sample_defs unknown_script_def edit_defs Let_def)

lemma run_big_upload:
  "upload_main sample_env sample_world sample_session big_upload =
     ([SessionUser], Inl (HTTPException 413 ''Uploaded files exceed file size limit.''))"
  by (simp add: sample_defs big_upload_def upload_defs Let_def)

lemma run_unknown_upload:
  "upload_main sample_env sample_world sample_session unknown_upload =
     ([SessionUser], Inl (HTTPException 400 ''Invalid file format.''))"
  by (simp add: sample_defs unknown_upload_def upload_defs Let_def)

section \<open>Rejections issue no store mutation\<close>

lemma edit_main_rejects:
  assumes "\<And>d old. req_data req = Inr d \<Longrightarrow> fetchrow_chart w = Some old
             \<Longrightarrow> \<exists>e. process_files env sess d req old = Inl e"
  shows "(\<exists>e. snd (edit_main env w sess req) = Inl e) \<and>
         set (fst (edit_main env w sess req))
           \<subseteq> {SessionUser, Fetchrow (get_chart_by_id (req_id req))}"
proof (cases "req_data req")
  case (Inl errs)
  then show ?thesis by (simp add: edit_main_def)
next
  case (Inr d)
  show ?thesis
  proof (cases "fetchrow_chart w")
    case None
    with Inr show ?thesis by (simp add: edit_main_def Let_def)
  next
    case (Some old)
    from assms [OF Inr Some] obtain e where "process_files env sess d req old = Inl e" ..
    with Inr Some show ?thesis by (simp add: edit_main_def Let_def)
  qed
qed

lemma process_files_fails:
  assumes "(\<forall>L. \<exists>e. chart_step env sess (req_id req) d old (chart_file req) L = Inl e)
         \<or> (\<forall>L. \<exists>e. jacket_step env sess (req_id req) d old (jacket_image req) L = Inl e)
         \<or> (\<forall>L. \<exists>e. audio_step env sess (req_id req) d old (audio_file req) L = Inl e)
         \<or> (\<forall>L. \<exists>e. preview_step env sess (req_id req) d old (preview_file req) L = Inl e)
         \<or> (\<forall>L. \<exists>e. background_step env sess (req_id req) d old (background_image req) L = Inl e)"
  shows "\<exists>e. process_files env sess d req old = Inl e"
  using assms unfolding process_files_def
  by (auto split: sum.splits) (metis Inl_Inr_False)+

lemma chart_step_inconsistent:
  "includes_chart d \<noteq> (cf \<noteq> None) \<Longrightarrow> \<exists>e. chart_step env sess cid d old cf L = Inl e"
  by (auto simp: chart_step_def split: option.splits)

lemma jacket_step_inconsistent:
  "includes_jacket d \<noteq> (jf \<noteq> None) \<Longrightarrow> \<exists>e. jacket_step env sess cid d old jf L = Inl e"
  by (auto simp: jacket_step_def split: option.splits)

lemma audio_step_inconsistent:
  "includes_audio d \<noteq> (af \<noteq> None) \<Longrightarrow> \<exists>e. audio_step env sess cid d old af L = Inl e"
  by (auto simp: audio_step_def split: option.splits)

lemma preview_step_inconsistent:
  "includes_preview d \<noteq> (pf \<noteq> None) \<or> (includes_preview d \<and> delete_preview d)
   \<Longrightarrow> \<exists>e. preview_step env sess cid d old pf L = Inl e"
  by (auto simp: preview_step_def split: option.splits)

lemma background_step_inconsistent:
  "includes_background d \<noteq> (bf \<noteq> None) \<or> (includes_background d \<and> delete_background d)
   \<Longrightarrow> \<exists>e. background_step env sess cid d old bf L = Inl e"
  by (auto simp: background_step_def split: option.splits)

lemma chart_step_too_large:
  "cf = Some f \<Longrightarrow> file_size f > MAX_FILE_SIZES_chart \<Longrightarrow> chart_step env sess cid d old cf L = Inl too_large"
  by (simp add: chart_step_def)

lemma jacket_step_too_large:
  "jf = Some f \<Longrightarrow> file_size f > MAX_FILE_SIZES_jacket \<Longrightarrow> jacket_step env sess cid d old jf L = Inl too_large"
  by (simp add: jacket_step_def)

lemma audio_step_too_large:
  "af = Some f \<Longrightarrow> file_size f > MAX_FILE_SIZES_audio \<Longrightarrow> audio_step env sess cid d old af L = Inl too_large"
  by (simp add: audio_step_def)

lemma preview_step_too_large:
  "pf = Some f \<Longrightarrow> file_size f > MAX_FILE_SIZES_preview \<Longrightarrow> preview_step env sess cid d old pf L = Inl too_large"
  by (simp add: preview_step_def)

lemma background_step_too_large:
  "bf = Some f \<Longrightarrow> file_size f > MAX_FILE_SIZES_background \<Longrightarrow> background_step env sess cid d old bf L = Inl too_large"
  by (simp add: background_step_def)

lemma upload_main_rejects:
  assumes "upload_sizes_exceeded req \<or> (\<forall>d cid. \<exists>e. upload_files env sess cid d req = Inl e)"
  shows "(\<exists>e. snd (upload_main env w sess req) = Inl e) \<and>
         set (fst (upload_main env w sess req)) \<subseteq> {SessionUser}"
proof (cases "up_data req")
  case (Inl errs)
  then show ?thesis by (simp add: upload_main_def)
next
  case (Inr d)
  from assms show ?thesis
  proof
    assume "upload_sizes_exceeded req"
    with Inr show ?thesis
      by (simp add: upload_main_def split: option.splits)
  next
    assume "\<forall>d cid. \<exists>e. upload_files env sess cid d req = Inl e"
    then obtain e where
      "upload_files env sess (filter (\<lambda>c. c \<noteq> CHR ''-'') (uuid4 w)) d req = Inl e"
      by blast
    with Inr show ?thesis
      by (simp add: upload_main_def Let_def split: option.splits)
  qed
qed


text \<open>
  C7. An edit whose flags disagree with its attachments (a flag without its file, a file
  without its flag, or include and delete together on the preview or the background) ends
  in an exception, and the only operations issued are the lookup of the session's user
  and the read of the chart row: no object-store operation, no statement of a commit.
\<close>

theorem inconsistent_flags_rejected:
  assumes "req_data req = Inr d"
    and "includes_chart d \<noteq> (chart_file req \<noteq> None)
       \<or> includes_jacket d \<noteq> (jacket_image req \<noteq> None)
       \<or> includes_audio d \<noteq> (audio_file req \<noteq> None)
       \<or> includes_preview d \<noteq> (preview_file req \<noteq> None)
       \<or> includes_background d \<noteq> (background_image req \<noteq> None)
       \<or> (includes_preview d \<and> delete_preview d)
       \<or> (includes_background d \<and> delete_background d)"
  shows "(\<exists>e. snd (edit_main env w sess req) = Inl e) \<and>
         set (fst (edit_main env w sess req))
           \<subseteq> {SessionUser, Fetchrow (get_chart_by_id (req_id req))}"
proof (rule edit_main_rejects)
  fix d' old
  assume "req_data req = Inr d'"
  with assms(1) have d: "d' = d" by simp
  from assms(2) consider
      (c) "includes_chart d \<noteq> (chart_file req \<noteq> None)"
    | (j) "includes_jacket d \<noteq> (jacket_image req \<noteq> None)"
    | (a) "includes_audio d \<noteq> (audio_file req \<noteq> None)"
    | (p) "includes_preview d \<noteq> (preview_file req \<noteq> None) \<or> (includes_preview d \<and> delete_preview d)"
    | (b) "includes_background d \<noteq> (background_image req \<noteq> None) \<or> (includes_background d \<and> delete_background d)"
    by blast
  then show "\<exists>e. process_files env sess d' req old = Inl e"
  proof cases
    case c
    show ?thesis unfolding d
      by (rule process_files_fails) (simp add: chart_step_inconsistent [OF c])
  next
    case j
    show ?thesis unfolding d
      by (rule process_files_fails) (simp add: jacket_step_inconsistent [OF j])
  next
    case a
    show ?thesis unfolding d
      by (rule process_files_fails) (simp add: audio_step_inconsistent [OF a])
  next
    case p
    show ?thesis unfolding d
      by (rule process_files_fails) (simp add: preview_step_inconsistent [OF p])
  next
    case b
    show ?thesis unfolding d
      by (rule process_files_fails) (simp add: background_step_inconsistent [OF b])
  qed
qed

text \<open>The audio flag set with no audio attached: rejected with 400 after the two reads.\<close>

theorem inconsistent_flags_rejected_witness:
  "req_data flag_without_file = Inr (no_change\<lparr>includes_audio := True\<rparr>) \<and>
   includes_audio (no_change\<lparr>includes_audio := True\<rparr>) \<and>
   audio_file flag_without_file = None \<and>
   ((\<exists>e. snd (edit_main sample_env sample_world sample_session flag_without_file) = Inl e) \<and>
    set (fst (edit_main sample_env sample_world sample_session flag_without_file))
      \<subseteq> {SessionUser, Fetchrow (get_chart_by_id (req_id flag_without_file))}) \<and>
   snd (edit_main sample_env sample_world sample_session flag_without_file)
     = Inl (HTTPException 400 ''File not found.'')"
proof -
  let ?d = "no_change\<lparr>includes_audio := True\<rparr>"
  have a: "req_data flag_without_file = Inr ?d"
    by (simp add: flag_without_file_def no_files_def)
  have b: "includes_audio ?d" by simp
  have c: "audio_file flag_without_file = None"
    by (simp add: flag_without_file_def no_files_def)
  have h: "includes_chart ?d \<noteq> (chart_file flag_without_file \<noteq> None)
       \<or> includes_jacket ?d \<noteq> (jacket_image flag_without_file \<noteq> None)
       \<or> includes_audio ?d \<noteq> (audio_file flag_without_file \<noteq> None)
       \<or> includes_preview ?d \<noteq> (preview_file flag_without_file \<noteq> None)
       \<or> includes_background ?d \<noteq> (background_image flag_without_file \<noteq> None)
       \<or> (includes_preview ?d \<and> delete_preview ?d)
       \<or> (includes_background ?d \<and> delete_background ?d)"
    using b c by simp
  note r = inconsistent_flags_rejected [OF a h, of sample_env sample_world sample_session]
  have e: "snd (edit_main sample_env sample_world sample_session flag_without_file)
     = Inl (HTTPException 400 ''File not found.'')"
    by (simp add: run_flag_without_file)
  show ?thesis
    by (intro conjI a b c e r [THEN conjunct1] r [THEN conjunct2])
qed


text \<open>
  C4, as the code has it. An upload with a file over its limit ends in an exception having
  issued nothing but the lookup of the session's user. An edit with a file over its limit
  ends in an exception having issued no object-store operation and no statement of a
  commit, but it has read the chart row: the owner check precedes the size checks.
\<close>

theorem oversize_rejected_before_store_calls:
  "(file_size (up_jacket_image ureq) > MAX_FILE_SIZES_jacket
      \<or> file_size (up_chart_file ureq) > MAX_FILE_SIZES_chart
      \<or> file_size (up_audio_file ureq) > MAX_FILE_SIZES_audio
      \<or> (\<exists>f. up_preview_file ureq = Some f \<and> file_size f > MAX_FILE_SIZES_preview)
      \<or> (\<exists>f. up_background_image ureq = Some f \<and> file_size f > MAX_FILE_SIZES_background)
    \<longrightarrow> (\<exists>e. snd (upload_main env w sess ureq) = Inl e) \<and>
        set (fst (upload_main env w sess ureq)) \<subseteq> {SessionUser})
   \<and>
   ((\<exists>f. chart_file req = Some f \<and> file_size f > MAX_FILE_SIZES_chart)
      \<or> (\<exists>f. jacket_image req = Some f \<and> file_size f > MAX_FILE_SIZES_jacket)
      \<or> (\<exists>f. audio_file req = Some f \<and> file_size f > MAX_FILE_SIZES_audio)
      \<or> (\<exists>f. preview_file req = Some f \<and> file_size f > MAX_FILE_SIZES_preview)
      \<or> (\<exists>f. background_image req = Some f \<and> file_size f > MAX_FILE_SIZES_background)
    \<longrightarrow> (\<exists>e. snd (edit_main env w sess req) = Inl e) \<and>
        set (fst (edit_main env w sess req))
          \<subseteq> {SessionUser, Fetchrow (get_chart_by_id (req_id req))})"
proof (intro conjI impI)
  assume "file_size (up_jacket_image ureq) > MAX_FILE_SIZES_jacket
      \<or> file_size (up_chart_file ureq) > MAX_FILE_SIZES_chart
      \<or> file_size (up_audio_file ureq) > MAX_FILE_SIZES_audio
      \<or> (\<exists>f. up_preview_file ureq = Some f \<and> file_size f > MAX_FILE_SIZES_preview)
      \<or> (\<exists>f. up_background_image ureq = Some f \<and> file_size f > MAX_FILE_SIZES_background)"
  then have "upload_sizes_exceeded ureq"
    by (auto simp: upload_sizes_exceeded_def)
  then have r: "(\<exists>e. snd (upload_main env w sess ureq) = Inl e) \<and>
         set (fst (upload_main env w sess ureq)) \<subseteq> {SessionUser}"
    by (intro upload_main_rejects disjI1)
  from r show "\<exists>e. snd (upload_main env w sess ureq) = Inl e" ..
  from r show "set (fst (upload_main env w sess ureq)) \<subseteq> {SessionUser}" ..
next
  assume big: "(\<exists>f. chart_file req = Some f \<and> file_size f > MAX_FILE_SIZES_chart)
      \<or> (\<exists>f. jacket_image req = Some f \<and> file_size f > MAX_FILE_SIZES_jacket)
      \<or> (\<exists>f. audio_file req = Some f \<and> file_size f > MAX_FILE_SIZES_audio)
      \<or> (\<exists>f. preview_file req = Some f \<and> file_size f > MAX_FILE_SIZES_preview)
      \<or> (\<exists>f. background_image req = Some f \<and> file_size f > MAX_FILE_SIZES_background)"
  have "\<exists>e. process_files env sess d req old = Inl e" for d old
    using big
    by (intro process_files_fails)
       (auto simp: chart_step_too_large jacket_step_too_large audio_step_too_large
          preview_step_too_large background_step_too_large)
  then have r: "(\<exists>e. snd (edit_main env w sess req) = Inl e) \<and>
         set (fst (edit_main env w sess req))
           \<subseteq> {SessionUser, Fetchrow (get_chart_by_id (req_id req))}"
    by (intro edit_main_rejects)
  from r show "\<exists>e. snd (edit_main env w sess req) = Inl e" ..
  from r show "set (fst (edit_main env w sess req))
           \<subseteq> {SessionUser, Fetchrow (get_chart_by_id (req_id req))}" ..
qed


text \<open>
  C4 as stated fails on the edit handler: with audio one byte over the limit the request
  is rejected with 413 only after the row of the chart was fetched from the database.
\<close>

theorem oversize_edit_reads_database:
  "audio_file big_audio = Some \<lparr>file_size = 52428801, file_bytes = ''B''\<rparr> \<and>
   MAX_FILE_SIZES_audio < 52428801 \<and>
   edit_main sample_env sample_world sample_session big_audio =
     ([SessionUser, Fetchrow (get_chart_by_id ''0123456789abcdef0123456789abcdef'')],
      Inl (HTTPException 413 ''Uploaded files exceed file size limit.''))"
  by (simp add: run_big_audio) (simp add: big_audio_def no_files_def MAX_FILE_SIZES_audio_def)


text \<open>Both halves at the samples with oversized audio.\<close>

theorem oversize_rejected_before_store_calls_witness:
  "file_size (up_audio_file big_upload) > MAX_FILE_SIZES_audio \<and>
   ((\<exists>e. snd (upload_main sample_env sample_world sample_session big_upload) = Inl e) \<and>
    set (fst (upload_main sample_env sample_world sample_session big_upload)) \<subseteq> {SessionUser}) \<and>
   (\<exists>f. audio_file big_audio = Some f \<and> file_size f > MAX_FILE_SIZES_audio) \<and>
   ((\<exists>e. snd (edit_main sample_env sample_world sample_session big_audio) = Inl e) \<and>
    set (fst (edit_main sample_env sample_world sample_session big_audio))
      \<subseteq> {SessionUser, Fetchrow (get_chart_by_id (req_id big_audio))})"
proof -
  have u: "file_size (up_audio_file big_upload) > MAX_FILE_SIZES_audio"
    by (simp add: big_upload_def MAX_FILE_SIZES_audio_def)
  have e: "\<exists>f. audio_file big_audio = Some f \<and> file_size f > MAX_FILE_SIZES_audio"
    by (simp add: big_audio_def no_files_def MAX_FILE_SIZES_audio_def)
  note t = oversize_rejected_before_store_calls
             [of big_upload sample_env sample_world sample_session big_audio]
  from u have ru: "(\<exists>e. snd (upload_main sample_env sample_world sample_session big_upload) = Inl e) \<and>
    set (fst (upload_main sample_env sample_world sample_session big_upload)) \<subseteq> {SessionUser}"
    by (intro t [THEN conjunct1, THEN mp] disjI2 disjI1)
  from e have re: "(\<exists>e. snd (edit_main sample_env sample_world sample_session big_audio) = Inl e) \<and>
    set (fst (edit_main sample_env sample_world sample_session big_audio))
      \<subseteq> {SessionUser, Fetchrow (get_chart_by_id (req_id big_audio))}"
    by (intro t [THEN conjunct2, THEN mp] disjI2 disjI1)
  show ?thesis by (intro conjI u e ru [THEN conjunct1] ru [THEN conjunct2]
      re [THEN conjunct1] re [THEN conjunct2])
qed

section \<open>Unrecognised scripts\<close>

lemma upload_files_invalid:
  assumes "fst (detect_upload env (file_bytes (up_chart_file req))) = False"
  shows "\<exists>e. upload_files env sess cid d req = Inl e"
proof -
  from assms have "upload_chart_bytes env (file_bytes (up_chart_file req)) = Inl invalid_format"
    by (auto simp: upload_chart_bytes_def split: prod.splits)
  then show ?thesis
    by (auto simp: upload_files_def split: sum.splits prod.splits)
qed

text \<open>
  C6. A script that the detector does not recognise (no valid flag on upload, nothing
  returned on edit) makes the script step raise the invalid-format error (HTTP 400), and
  the request, whatever else it holds, ends in an exception having issued no object-store
  operation and no statement of a commit: an upload has only resolved the session's user,
  an edit has in addition read the chart row.
\<close>

theorem unrecognized_script_rejected:
  "(fst (detect_upload env (file_bytes (up_chart_file ureq))) = False \<longrightarrow>
      upload_chart_bytes env (file_bytes (up_chart_file ureq)) = Inl (HTTPException 400 ''Invalid file format.'') \<and>
      (\<exists>e. snd (upload_main env w sess ureq) = Inl e) \<and>
      set (fst (upload_main env w sess ureq)) \<subseteq> {SessionUser})
   \<and>
   (chart_file req = Some f \<and> detect_edit env (file_bytes f) = None \<longrightarrow>
      (req_data req = Inr d \<and> file_size f \<le> MAX_FILE_SIZES_chart \<and> includes_chart d \<longrightarrow>
         chart_step env sess (req_id req) d old (chart_file req) L
           = Inl (HTTPException 400 ''Invalid file format.'')) \<and>
      (\<exists>e. snd (edit_main env w sess req) = Inl e) \<and>
      set (fst (edit_main env w sess req))
        \<subseteq> {SessionUser, Fetchrow (get_chart_by_id (req_id req))})"
proof (intro conjI impI)
  assume inv: "fst (detect_upload env (file_bytes (up_chart_file ureq))) = False"
  then show "upload_chart_bytes env (file_bytes (up_chart_file ureq))
               = Inl (HTTPException 400 ''Invalid file format.'')"
    by (auto simp: upload_chart_bytes_def invalid_format_def split: prod.splits)
  from inv have "\<forall>d cid. \<exists>e. upload_files env sess cid d ureq = Inl e"
    by (simp add: upload_files_invalid)
  then have r: "(\<exists>e. snd (upload_main env w sess ureq) = Inl e) \<and>
         set (fst (upload_main env w sess ureq)) \<subseteq> {SessionUser}"
    by (intro upload_main_rejects disjI2)
  from r show "\<exists>e. snd (upload_main env w sess ureq) = Inl e" ..
  from r show "set (fst (upload_main env w sess ureq)) \<subseteq> {SessionUser}" ..
next
  assume a: "chart_file req = Some f \<and> detect_edit env (file_bytes f) = None"
  assume "req_data req = Inr d \<and> file_size f \<le> MAX_FILE_SIZES_chart \<and> includes_chart d"
  with a show "chart_step env sess (req_id req) d old (chart_file req) L
           = Inl (HTTPException 400 ''Invalid file format.'')"
    by (simp add: chart_step_def invalid_format_def)
next
  assume a: "chart_file req = Some f \<and> detect_edit env (file_bytes f) = None"
  have "\<forall>L. \<exists>e. chart_step env sess (req_id req) d' old' (chart_file req) L = Inl e" for d' old'
    using a by (simp add: chart_step_def)
  then have "\<exists>e. process_files env sess d' req old' = Inl e" for d' old'
    by (intro process_files_fails disjI1)
  then have r: "(\<exists>e. snd (edit_main env w sess req) = Inl e) \<and>
         set (fst (edit_main env w sess req))
           \<subseteq> {SessionUser, Fetchrow (get_chart_by_id (req_id req))}"
    by (intro edit_main_rejects)
  from r show "\<exists>e. snd (edit_main env w sess req) = Inl e" ..
  from r show "set (fst (edit_main env w sess req))
           \<subseteq> {SessionUser, Fetchrow (get_chart_by_id (req_id req))}" ..
qed

text \<open>The sample detector knows neither script; both requests end with the 400.\<close>

theorem unrecognized_script_rejected_witness:
  "fst (detect_upload sample_env (file_bytes (up_chart_file unknown_upload))) = False \<and>
   (upload_chart_bytes sample_env (file_bytes (up_chart_file unknown_upload))
      = Inl (HTTPException 400 ''Invalid file format.'') \<and>
    (\<exists>e. snd (upload_main sample_env sample_world sample_session unknown_upload) = Inl e) \<and>
    set (fst (upload_main sample_env sample_world sample_session unknown_upload)) \<subseteq> {SessionUser}) \<and>
   (chart_file unknown_script = Some \<lparr>file_size = 3, file_bytes = ''???''\<rparr> \<and>
    detect_edit sample_env (file_bytes \<lparr>file_size = 3, file_bytes = ''???''\<rparr>) = None) \<and>
   (req_data unknown_script = Inr (no_change\<lparr>includes_chart := True\<rparr>) \<and>
    file_size \<lparr>file_size = 3, file_bytes = ''???''\<rparr> \<le> MAX_FILE_SIZES_chart \<and>
    includes_chart (no_change\<lparr>includes_chart := True\<rparr>)) \<and>
   chart_step sample_env sample_session (req_id unknown_script)
       (no_change\<lparr>includes_chart := True\<rparr>) sample_row (chart_file unknown_script) init_locals
     = Inl (HTTPException 400 ''Invalid file format.'') \<and>
   (\<exists>e. snd (edit_main sample_env sample_world sample_session unknown_script) = Inl e) \<and>
   set (fst (edit_main sample_env sample_world sample_session unknown_script))
     \<subseteq> {SessionUser, Fetchrow (get_chart_by_id (req_id unknown_script))} \<and>
   snd (upload_main sample_env sample_world sample_session unknown_upload)
     = Inl (HTTPException 400 ''Invalid file format.'') \<and>
   snd (edit_main sample_env sample_world sample_session unknown_script)
     = Inl (HTTPException 400 ''Invalid file format.'')"
proof -
  let ?f = "\<lparr>file_size = 3, file_bytes = ''???''\<rparr>"
  let ?d = "no_change\<lparr>includes_chart := True\<rparr>"
  have hu: "fst (detect_upload sample_env (file_bytes (up_chart_file unknown_upload))) = False"
    by (simp add: unknown_upload_def sample_upload_def sample_env_def)
  have he: "chart_file unknown_script = Some ?f \<and> detect_edit sample_env (file_bytes ?f) = None"
    by (simp add: unknown_script_def no_files_def sample_env_def)
  have hd: "req_data unknown_script = Inr ?d \<and> file_size ?f \<le> MAX_FILE_SIZES_chart \<and>
            includes_chart ?d"
    by (simp add: unknown_script_def no_files_def MAX_FILE_SIZES_chart_def)
  note t = unrecognized_script_rejected
             [of sample_env unknown_upload sample_world sample_session unknown_script ?f ?d
                 sample_row init_locals]
  note tu = t [THEN conjunct1, THEN mp, OF hu]
  note te = t [THEN conjunct2, THEN mp, OF he]
  note ts = te [THEN conjunct1, THEN mp, OF hd]
  have ru: "snd (upload_main sample_env sample_world sample_session unknown_upload)
     = Inl (HTTPException 400 ''Invalid file format.'')"
    by (simp add: run_unknown_upload)
  have re: "snd (edit_main sample_env sample_world sample_session unknown_script)
     = Inl (HTTPException 400 ''Invalid file format.'')"
    by (simp add: run_unknown_script)
  show ?thesis
    by (intro conjI hu tu [THEN conjunct1] tu [THEN conjunct2, THEN conjunct1]
        tu [THEN conjunct2, THEN conjunct2] he [THEN conjunct1] he [THEN conjunct2]
        hd [THEN conjunct1] hd [THEN conjunct2, THEN conjunct1] hd [THEN conjunct2, THEN conjunct2]
        ts te [THEN conjunct2, THEN conjunct1] te [THEN conjunct2, THEN conjunct2] ru re)
qed

section \<open>Already-canonical payloads\<close>




section \<open>Compression of a canonical payload\<close>

text \<open>
  C9. For a payload classed as canonical and not compressed, the converter's output, when
  it accepts the producer tag, is exactly what the gzip writer produces for the unchanged
  input with the file name \<^verbatim>\<open>LevelData\<close> and the modification time 0; the output
  is the same function of the input bytes in both handlers, whatever the tag. The gzip
  format is the standard library's: for any reader that inverts the writer, reading the
  output returns the input.
\<close>

theorem canonical_payload_gzip_roundtrip:
  assumes "\<And>x. gunzip (gzip_write env ''LevelData'' 0 x) = Some x"
  shows "(ld_type = ''nextsekai'' \<or> app_debug env \<longrightarrow>
            convert_upload env False False True False ld_type b
              = Inr (gzip_write env ''LevelData'' 0 b))
       \<and> (\<forall>out. convert_upload env False False True False ld_type b = Inr out \<longrightarrow>
            out = gzip_write env ''LevelData'' 0 b \<and> gunzip out = Some b)
       \<and> (endswith tag ''pysekai'' \<and> \<not> startswith tag ''compress_'' \<longrightarrow>
            convert_edit env (''lvd'', tag) b = Inr (gzip_write env ''LevelData'' 0 b))
       \<and> (\<forall>out. \<not> startswith tag ''compress_'' \<and> convert_edit env (''lvd'', tag) b = Inr out \<longrightarrow>
            out = gzip_write env ''LevelData'' 0 b \<and> gunzip out = Some b)"
  using assms by (auto simp: convert_upload_def convert_edit_def split: if_splits)

theorem canonical_payload_gzip_roundtrip_witness:
  "(\<forall>x. sample_gunzip (gzip_write sample_env ''LevelData'' 0 x) = Some x) \<and>
   convert_upload sample_env False False True False ''nextsekai'' ''LVD1''
     = Inr (gzip_write sample_env ''LevelData'' 0 ''LVD1'') \<and>
   sample_gunzip (gzip_write sample_env ''LevelData'' 0 ''LVD1'') = Some ''LVD1'' \<and>
   (endswith ''pysekai'' ''pysekai'' \<and> \<not> startswith ''pysekai'' ''compress_'') \<and>
   convert_edit sample_env (''lvd'', ''pysekai'') ''LVD1''
     = Inr (gzip_write sample_env ''LevelData'' 0 ''LVD1'') \<and>
   gzip_write sample_env ''LevelData'' 0 ''LVD1'' = ''gz:LevelData:LVD1''"
proof -
  have g: "sample_gunzip (gzip_write sample_env ''LevelData'' 0 x) = Some x" for x
    by (simp add: sample_gunzip_def sample_env_def)
  have h: "endswith ''pysekai'' ''pysekai'' \<and> \<not> startswith ''pysekai'' ''compress_''"
    by (simp add: endswith_def startswith_def)
  note t = canonical_payload_gzip_roundtrip
             [of sample_gunzip sample_env "''nextsekai''" "''LVD1''" "''pysekai''", OF g]
  have u: "convert_upload sample_env False False True False ''nextsekai'' ''LVD1''
     = Inr (gzip_write sample_env ''LevelData'' 0 ''LVD1'')"
    by (rule t [THEN conjunct1, THEN mp]) simp
  have e: "convert_edit sample_env (''lvd'', ''pysekai'') ''LVD1''
     = Inr (gzip_write sample_env ''LevelData'' 0 ''LVD1'')"
    by (rule t [THEN conjunct2, THEN conjunct2, THEN conjunct1, THEN mp]) (rule h)
  have v: "gzip_write sample_env ''LevelData'' 0 ''LVD1'' = ''gz:LevelData:LVD1''"
    by (simp add: sample_env_def)
  from g have g': "\<forall>x. sample_gunzip (gzip_write sample_env ''LevelData'' 0 x) = Some x" by blast
  show ?thesis
    by (intro conjI g' u g h [THEN conjunct1] h [THEN conjunct2] e v)
qed

section \<open>Order of the blob batch and the commit\<close>

lemma s3_block_all_s3: "list_all is_s3 (s3_block w sess cid old L)"
  by (simp add: s3_block_def Let_def)

lemma finish_shape:
  "\<exists>post. fst (finish w sess d req old L tr0) = tr0 @ s3_block w sess (req_id req) old L @ post
          \<and> list_all is_commit post
          \<and> (gather_raises w \<and> s3_block w sess (req_id req) old L \<noteq> [] \<longrightarrow> post = [])"
  by (simp add: finish_def Let_def split: sum.splits)

lemma edit_main_trace_cases:
  "fst (edit_main env w sess req) = []
   \<or> fst (edit_main env w sess req) = [SessionUser, Fetchrow (get_chart_by_id (req_id req))]
   \<or> (\<exists>d old L. fst (edit_main env w sess req)
         = fst (finish w sess d req old L [SessionUser, Fetchrow (get_chart_by_id (req_id req))]))"
  by (auto simp: edit_main_def Let_def split: sum.splits option.splits)

lemma edit_main_shape:
  "\<exists>pre batch post.
      fst (edit_main env w sess req) = pre @ batch @ post
      \<and> list_all (\<lambda>ev. \<not> is_s3 ev \<and> \<not> is_commit ev) pre
      \<and> list_all is_s3 batch
      \<and> list_all is_commit post
      \<and> (gather_raises w \<and> batch \<noteq> [] \<longrightarrow> post = [])"
proof -
  let ?tr0 = "[SessionUser, Fetchrow (get_chart_by_id (req_id req))]"
  from edit_main_trace_cases [of env w sess req] consider
      (a) "fst (edit_main env w sess req) = []"
    | (b) "fst (edit_main env w sess req) = ?tr0"
    | (c) d old L where "fst (edit_main env w sess req) = fst (finish w sess d req old L ?tr0)"
    by blast
  then show ?thesis
  proof cases
    case a
    then show ?thesis by (intro exI [of _ "[]"]) simp
  next
    case b
    show ?thesis
      by (rule exI [of _ ?tr0], rule exI [of _ "[]"], rule exI [of _ "[]"]) (simp add: b)
  next
    case c
    from finish_shape [of w sess d req old L ?tr0] obtain post where
      p: "fst (finish w sess d req old L ?tr0) = ?tr0 @ s3_block w sess (req_id req) old L @ post"
         "list_all is_commit post"
         "gather_raises w \<and> s3_block w sess (req_id req) old L \<noteq> [] \<longrightarrow> post = []"
      by blast
    show ?thesis
      by (rule exI [of _ ?tr0], rule exI [of _ "s3_block w sess (req_id req) old L"],
          rule exI [of _ post])
         (use c p s3_block_all_s3 [of w sess "req_id req" old L] in simp)
  qed
qed

lemma s3_is_no_commit: "is_s3 ev \<Longrightarrow> \<not> is_commit ev"
  by (cases ev) simp_all

lemma shape_no_commit_after_failed_batch:
  assumes tr: "tr = pre @ batch @ post"
    and pre: "list_all (\<lambda>ev. \<not> is_s3 ev \<and> \<not> is_commit ev) pre"
    and batch: "list_all is_s3 batch" and post: "list_all is_commit post"
    and fail: "batch \<noteq> [] \<longrightarrow> post = []"
    and s3: "list_ex is_s3 tr"
  shows "\<not> list_ex is_commit tr"
proof
  assume "list_ex is_commit tr"
  then obtain c where c: "c \<in> set tr" "is_commit c" by (auto simp: list_ex_iff)
  from s3 obtain s where s: "s \<in> set tr" "is_s3 s" by (auto simp: list_ex_iff)
  from s pre post tr have "s \<in> set batch"
    using s3_is_no_commit [of s] by (auto simp: list_all_iff)
  then have "batch \<noteq> []" by auto
  with fail have "post = []" by simp
  with c tr have "c \<in> set pre \<or> c \<in> set batch" by auto
  with c(2) pre batch show False
    using s3_is_no_commit [of c] by (auto simp: list_all_iff)
qed

text \<open>
  C2, as the code has it. Every object-store operation of an edit (the listing of the
  replays and the one batch that holds the deletions of old blobs together with the
  uploads of new ones) is issued before the first statement of the commit, and when the
  batch raises no statement of the commit is issued at all. Deletions are not deferred
  until after the commit.
\<close>

theorem blob_batch_precedes_commit:
  "(\<exists>pre batch post.
      fst (edit_main env w sess req) = pre @ batch @ post
      \<and> list_all (\<lambda>ev. \<not> is_s3 ev \<and> \<not> is_commit ev) pre
      \<and> list_all is_s3 batch
      \<and> list_all is_commit post)
   \<and> (gather_raises w \<and> list_ex is_s3 (fst (edit_main env w sess req))
        \<longrightarrow> \<not> list_ex is_commit (fst (edit_main env w sess req)))"
proof (intro conjI impI)
  from edit_main_shape [of env w sess req]
  show "\<exists>pre batch post.
      fst (edit_main env w sess req) = pre @ batch @ post
      \<and> list_all (\<lambda>ev. \<not> is_s3 ev \<and> \<not> is_commit ev) pre
      \<and> list_all is_s3 batch
      \<and> list_all is_commit post"
    by blast
next
  assume a: "gather_raises w \<and> list_ex is_s3 (fst (edit_main env w sess req))"
  from edit_main_shape [of env w sess req] obtain pre batch post where
    p: "fst (edit_main env w sess req) = pre @ batch @ post"
       "list_all (\<lambda>ev. \<not> is_s3 ev \<and> \<not> is_commit ev) pre"
       "list_all is_s3 batch" "list_all is_commit post"
       "gather_raises w \<and> batch \<noteq> [] \<longrightarrow> post = []"
    by blast
  from p(5) a have "batch \<noteq> [] \<longrightarrow> post = []" by simp
  with p(1-4) a show "\<not> list_ex is_commit (fst (edit_main env w sess req))"
    by (intro shape_no_commit_after_failed_batch [of _ pre batch post]) simp_all
qed

text \<open>
  C2 as stated fails: replacing the audio deletes the old audio blob in the batch, and
  when the commit then raises on its first statement the row still names the deleted
  blob.
\<close>

theorem old_blob_deleted_before_commit:
  "music_file_hash sample_row = ''A'' \<and>
   edit_main sample_env (sample_world\<lparr>execute_raises := True\<rparr>) sample_session new_audio =
     ([SessionUser,
       Fetchrow (get_chart_by_id ''0123456789abcdef0123456789abcdef''),
       ListObjects ''u1/0123456789abcdef0123456789abcdef/replays/'',
       Gather
        [Delete ''u1/0123456789abcdef0123456789abcdef/A'',
         Upload ''u1/0123456789abcdef0123456789abcdef/B'' ''B'' ''audio/mpeg'',
         Delete ''u1/0123456789abcdef0123456789abcdef/replays/r1''],
       Execute (update_metadata
          \<lparr>m_chart_id = ''0123456789abcdef0123456789abcdef'',
           m_chart_author = None, m_rating = None, m_title = None,
           m_artists = None, m_tags = None, m_description = None,
           m_update_none_description = True\<rparr>)],
      Inl (ExternalError ''execute''))"
  by (simp add: run_new_audio_commit_fails) (simp add: sample_row_def)

text \<open>With a batch that raises, the sample edit issues the batch and no statement.\<close>

theorem blob_batch_precedes_commit_witness:
  "(gather_raises (sample_world\<lparr>gather_raises := True\<rparr>) \<and>
    list_ex is_s3
      (fst (edit_main sample_env (sample_world\<lparr>gather_raises := True\<rparr>) sample_session new_audio))) \<and>
   \<not> list_ex is_commit
      (fst (edit_main sample_env (sample_world\<lparr>gather_raises := True\<rparr>) sample_session new_audio))"
proof -
  have h: "gather_raises (sample_world\<lparr>gather_raises := True\<rparr>) \<and>
    list_ex is_s3
      (fst (edit_main sample_env (sample_world\<lparr>gather_raises := True\<rparr>) sample_session new_audio))"
    by (simp add: run_new_audio_batch_fails)
  note t = blob_batch_precedes_commit
             [of sample_env "sample_world\<lparr>gather_raises := True\<rparr>" sample_session new_audio,
              THEN conjunct2, THEN mp, OF h]
  show ?thesis by (intro conjI h [THEN conjunct1] h [THEN conjunct2] t)
qed

section \<open>One create operation per hash\<close>

lemma blob_path_inj: "blob_path owner cid h = blob_path owner cid h' \<longleftrightarrow> h = h'"
  by (simp add: blob_path_def)

lemma upload_keys_append: "upload_keys (xs @ ys) = upload_keys xs @ upload_keys ys"
  by (induction xs rule: upload_keys.induct) simp_all

lemma upload_keys_deletes: "upload_keys (map Delete ks) = []"
  by (induction ks) simp_all

lemma upload_keys_delete_tasks: "upload_keys (delete_tasks sess cid hs) = []"
  by (induction hs) (simp_all add: delete_tasks_def)

lemma count_upload_tasks:
  assumes "\<forall>f \<in> set fs. f_path f = blob_path owner cid (f_hash f)"
  shows "count_list (upload_keys (upload_tasks alr fs)) (blob_path owner cid h)
           = (if h \<in> f_hash ` set fs \<and> h \<notin> set alr then 1 else 0)"
  using assms
proof (induction fs arbitrary: alr)
  case Nil
  then show ?case by simp
next
  case (Cons f fs)
  then have ih: "count_list (upload_keys (upload_tasks a fs)) (blob_path owner cid h)
           = (if h \<in> f_hash ` set fs \<and> h \<notin> set a then 1 else 0)" for a
    by simp
  from Cons.prems have p: "f_path f = blob_path owner cid (f_hash f)" by simp
  show ?case
  proof (cases "f_hash f \<in> set alr")
    case True
    then show ?thesis using ih [of alr] by auto
  next
    case False
    then show ?thesis using ih [of "alr @ [f_hash f]"] p
      by (auto simp: blob_path_inj)
  qed
qed

lemma paths_ok_append:
  "paths_ok sess cid (xs @ ys) = (paths_ok sess cid xs \<and> paths_ok sess cid ys)"
  by (simp add: paths_ok_def)

lemma paths_ok_mk_file: "paths_ok sess cid (mk_file sess cid h b ct # fs) = paths_ok sess cid fs"
  by (simp add: paths_ok_def mk_file_def)

lemma paths_ok_Nil: "paths_ok sess cid []"
  by (simp add: paths_ok_def)

lemmas paths_simps = paths_ok_append paths_ok_mk_file paths_ok_Nil

lemma chart_step_paths:
  "chart_step env sess cid d old cf L = Inr L' \<Longrightarrow> paths_ok sess cid (s3_uploads L)
   \<Longrightarrow> paths_ok sess cid (s3_uploads L')"
  by (auto simp: chart_step_def Let_def paths_simps
      split: option.splits if_splits sum.splits prod.splits)

lemma jacket_step_paths:
  "jacket_step env sess cid d old jf L = Inr L' \<Longrightarrow> paths_ok sess cid (s3_uploads L)
   \<Longrightarrow> paths_ok sess cid (s3_uploads L')"
  by (auto simp: jacket_step_def Let_def paths_simps
      split: option.splits if_splits sum.splits prod.splits)

lemma audio_step_paths:
  "audio_step env sess cid d old af L = Inr L' \<Longrightarrow> paths_ok sess cid (s3_uploads L)
   \<Longrightarrow> paths_ok sess cid (s3_uploads L')"
  by (auto simp: audio_step_def Let_def paths_simps
      split: option.splits if_splits sum.splits prod.splits)

lemma preview_step_paths:
  "preview_step env sess cid d old pf L = Inr L' \<Longrightarrow> paths_ok sess cid (s3_uploads L)
   \<Longrightarrow> paths_ok sess cid (s3_uploads L')"
  by (auto simp: preview_step_def Let_def paths_simps
      split: option.splits if_splits sum.splits prod.splits)

lemma background_step_paths:
  "background_step env sess cid d old bf L = Inr L' \<Longrightarrow> paths_ok sess cid (s3_uploads L)
   \<Longrightarrow> paths_ok sess cid (s3_uploads L')"
  by (auto simp: background_step_def Let_def paths_simps
      split: option.splits if_splits sum.splits prod.splits)

lemma process_files_paths:
  assumes "process_files env sess d req old = Inr L"
  shows "paths_ok sess (req_id req) (s3_uploads L)"
proof -
  have p0: "paths_ok sess (req_id req) (s3_uploads init_locals)"
    by (simp add: paths_ok_def init_locals_def)
  from assms obtain L1 where
    s1: "chart_step env sess (req_id req) d old (chart_file req) init_locals = Inr L1"
    by (cases "chart_step env sess (req_id req) d old (chart_file req) init_locals")
       (simp_all add: process_files_def)
  from assms s1 obtain L2 where
    s2: "jacket_step env sess (req_id req) d old (jacket_image req) L1 = Inr L2"
    by (cases "jacket_step env sess (req_id req) d old (jacket_image req) L1")
       (simp_all add: process_files_def)
  from assms s1 s2 obtain L3 where
    s3: "audio_step env sess (req_id req) d old (audio_file req) L2 = Inr L3"
    by (cases "audio_step env sess (req_id req) d old (audio_file req) L2")
       (simp_all add: process_files_def)
  from assms s1 s2 s3 obtain L4 where
    s4: "preview_step env sess (req_id req) d old (preview_file req) L3 = Inr L4"
    by (cases "preview_step env sess (req_id req) d old (preview_file req) L3")
       (simp_all add: process_files_def)
  from assms s1 s2 s3 s4 have
    s5: "background_step env sess (req_id req) d old (background_image req) L4 = Inr L"
    by (simp add: process_files_def)
  note p1 = chart_step_paths [OF s1 p0]
  note p2 = jacket_step_paths [OF s2 p1]
  note p3 = audio_step_paths [OF s3 p2]
  note p4 = preview_step_paths [OF s4 p3]
  show ?thesis by (rule background_step_paths [OF s5 p4])
qed

lemma upload_files_result:
  assumes "upload_files env sess cid d req = Inr (uploads, chart)"
  obtains v1 v3 jb cb ab pb bb where
    "uploads =
       [mk_file sess cid (calculate_sha1 env v1) v1 ''image/png'',
        mk_file sess cid (calculate_sha1 env v3) v3 ''image/png'',
        mk_file sess cid (calculate_sha1 env jb) jb ''image/png'',
        mk_file sess cid (calculate_sha1 env cb) cb ''application/gzip'',
        mk_file sess cid (calculate_sha1 env ab) ab ''audio/mpeg''] @
       (case pb of None \<Rightarrow> [] | Some b \<Rightarrow> [mk_file sess cid (calculate_sha1 env b) b ''audio/mpeg'']) @
       (case bb of None \<Rightarrow> [] | Some b \<Rightarrow> [mk_file sess cid (calculate_sha1 env b) b ''image/png''])"
    "c_id chart = cid" "c_author chart = sonolus_id sess"
    "c_jacket_file_hash chart = calculate_sha1 env jb"
    "c_music_file_hash chart = calculate_sha1 env ab"
    "c_chart_file_hash chart = calculate_sha1 env cb"
    "c_background_v1_file_hash chart = calculate_sha1 env v1"
    "c_background_v3_file_hash chart = calculate_sha1 env v3"
    "c_preview_file_hash chart = map_option (calculate_sha1 env) pb"
    "c_background_file_hash chart = map_option (calculate_sha1 env) bb"
proof -
  from assms obtain raw where
    a1: "get_and_check_file env (up_jacket_image req) ''image'' = Inr raw"
    by (cases "get_and_check_file env (up_jacket_image req) ''image''")
       (simp_all add: upload_files_def)
  from assms a1 obtain v1 v3 jb where
    a2: "generate_backgrounds_resize_jacket env raw = Inr (v1, v3, jb)"
    by (cases "generate_backgrounds_resize_jacket env raw")
       (auto simp: upload_files_def)
  from assms a1 a2 obtain cb where
    a3: "upload_chart_bytes env (file_bytes (up_chart_file req)) = Inr cb"
    by (cases "upload_chart_bytes env (file_bytes (up_chart_file req))")
       (simp_all add: upload_files_def)
  from assms a1 a2 a3 obtain ab where
    a4: "get_and_check_file env (up_audio_file req) ''audio/mpeg'' = Inr ab"
    by (cases "get_and_check_file env (up_audio_file req) ''audio/mpeg''")
       (simp_all add: upload_files_def)
  from assms a1 a2 a3 a4 obtain pb where
    a5: "opt_file env (up_preview_file req) ''audio/mpeg'' = Inr pb"
    by (cases "opt_file env (up_preview_file req) ''audio/mpeg''")
       (simp_all add: upload_files_def)
  from assms a1 a2 a3 a4 a5 obtain bb where
    a6: "opt_file env (up_background_image req) ''image/png'' = Inr bb"
    by (cases "opt_file env (up_background_image req) ''image/png''")
       (simp_all add: upload_files_def)
  from assms have
    r: "Inr (uploads, chart) = upload_files env sess cid d req" by simp
  note e = r [unfolded upload_files_def a1 a2 a3 a4 a5 a6 sum.case prod.case Let_def,
              simplified]
  show thesis
    by (rule that [of v1 v3 jb cb ab pb bb]) (simp_all add: e)
qed

lemma upload_files_paths:
  assumes "upload_files env sess cid d req = Inr (uploads, chart)"
  shows "paths_ok sess cid uploads \<and> set (chart_hashes chart) = f_hash ` set uploads
         \<and> c_id chart = cid \<and> c_author chart = sonolus_id sess"
proof -
  from assms obtain v1 v3 jb cb ab pb bb where
    u: "uploads =
       [mk_file sess cid (calculate_sha1 env v1) v1 ''image/png'',
        mk_file sess cid (calculate_sha1 env v3) v3 ''image/png'',
        mk_file sess cid (calculate_sha1 env jb) jb ''image/png'',
        mk_file sess cid (calculate_sha1 env cb) cb ''application/gzip'',
        mk_file sess cid (calculate_sha1 env ab) ab ''audio/mpeg''] @
       (case pb of None \<Rightarrow> [] | Some b \<Rightarrow> [mk_file sess cid (calculate_sha1 env b) b ''audio/mpeg'']) @
       (case bb of None \<Rightarrow> [] | Some b \<Rightarrow> [mk_file sess cid (calculate_sha1 env b) b ''image/png''])"
    and c: "c_id chart = cid" "c_author chart = sonolus_id sess"
    "c_jacket_file_hash chart = calculate_sha1 env jb"
    "c_music_file_hash chart = calculate_sha1 env ab"
    "c_chart_file_hash chart = calculate_sha1 env cb"
    "c_background_v1_file_hash chart = calculate_sha1 env v1"
    "c_background_v3_file_hash chart = calculate_sha1 env v3"
    "c_preview_file_hash chart = map_option (calculate_sha1 env) pb"
    "c_background_file_hash chart = map_option (calculate_sha1 env) bb"
    by (rule upload_files_result)
  have p: "paths_ok sess cid uploads"
    unfolding u by (cases pb; cases bb) (simp_all add: paths_simps)
  have h: "set (chart_hashes chart) = f_hash ` set uploads"
    unfolding u chart_hashes_def c
    by (cases pb; cases bb) (auto simp: mk_file_def)
  from p h c(1,2) show ?thesis by simp
qed

lemma upload_main_success:
  assumes "upload_main env w sess req = (tr, Inr rid)"
  shows "\<exists>d uploads chart.
           upload_files env sess (filter (\<lambda>c. c \<noteq> CHR ''-'') (uuid4 w)) d req = Inr (uploads, chart)
           \<and> tr = [SessionUser, Gather (upload_tasks [] uploads), Fetchrow (create_chart chart),
                   Execute (update_cooldown (sonolus_id sess) 1)]"
  using assms
  by (auto simp: upload_main_def Let_def split: sum.splits option.splits if_splits prod.splits)

lemma s3_block_gather:
  "Gather tasks \<in> set (s3_block w sess cid old L)
   \<Longrightarrow> upload_keys tasks = upload_keys (upload_tasks [] (s3_uploads L))"
  by (auto simp: s3_block_def Let_def upload_keys_append upload_keys_deletes
      upload_keys_delete_tasks split: if_splits)

lemma count_uploads_once:
  assumes "paths_ok sess cid fs" and "f \<in> set fs"
  shows "count_list (upload_keys (upload_tasks [] fs)) (blob_path (sonolus_id sess) cid (f_hash f)) = 1"
proof -
  from assms(1) have "\<forall>g \<in> set fs. f_path g = blob_path (sonolus_id sess) cid (f_hash g)"
    by (simp add: paths_ok_def list_all_iff)
  from count_upload_tasks [OF this, of "[]" "f_hash f"] assms(2) show ?thesis by auto
qed

lemma trace_upload_keys_append:
  "trace_upload_keys (xs @ ys) = trace_upload_keys xs @ trace_upload_keys ys"
  by (induction xs rule: trace_upload_keys.induct) simp_all

lemma trace_upload_keys_s3_block:
  "trace_upload_keys (s3_block w sess cid old L) = upload_keys (upload_tasks [] (s3_uploads L))"
  by (simp add: s3_block_def Let_def upload_keys_append upload_keys_deletes
      upload_keys_delete_tasks)

lemma hash_key_all:
  "(\<forall>k. P k) \<longleftrightarrow>
     (P K_background_file_hash \<and> P K_background_v1_file_hash \<and> P K_background_v3_file_hash \<and>
      P K_jacket_file_hash \<and> P K_chart_file_hash \<and> P K_music_file_hash \<and>
      P K_preview_file_hash)"
  by (metis hash_key.exhaust)

lemma hash_key_ex:
  "(\<exists>k. P k) \<longleftrightarrow>
     (P K_background_file_hash \<or> P K_background_v1_file_hash \<or> P K_background_v3_file_hash \<or>
      P K_jacket_file_hash \<or> P K_chart_file_hash \<or> P K_music_file_hash \<or>
      P K_preview_file_hash)"
  by (metis hash_key.exhaust)

lemma locals_ok_init: "locals_ok d req old {} init_locals"
  by (simp add: locals_ok_def init_locals_def hash_key_all)

lemma locals_ok_step:
  assumes inv: "locals_ok d req old K L" and eff: "step_effect d req old K0 L L'"
    and dis: "K \<inter> K0 = {}"
  shows "locals_ok d req old (K \<union> K0) L'"
  unfolding locals_ok_def
proof (intro conjI allI impI ballI)
  fix k assume "k \<notin> K \<union> K0"
  with inv eff show "slot_local L' k = None"
    by (simp add: locals_ok_def step_effect_def)
next
  fix k h assume s: "slot_local L' k = Some h"
  show "slot_submitted d req k"
  proof (cases "k \<in> K0")
    case True with eff s show ?thesis unfolding step_effect_def by blast
  next
    case False
    with eff s have "slot_local L k = Some h" by (simp add: step_effect_def)
    with inv show ?thesis unfolding locals_ok_def by blast
  qed
  show "Some h = getattr_hash old k \<or> h \<in> f_hash ` set (s3_uploads L')"
  proof (cases "k \<in> K0")
    case True with eff s show ?thesis unfolding step_effect_def by blast
  next
    case False
    with eff s have "slot_local L k = Some h" by (simp add: step_effect_def)
    with inv have "Some h = getattr_hash old k \<or> h \<in> f_hash ` set (s3_uploads L)"
      unfolding locals_ok_def by blast
    moreover from eff have "set (s3_uploads L) \<subseteq> set (s3_uploads L')"
      by (simp add: step_effect_def)
    ultimately show ?thesis by blast
  qed
next
  fix f assume "f \<in> set (s3_uploads L')"
  with eff consider (old) "f \<in> set (s3_uploads L)"
    | (new) k where "k \<in> K0" "slot_local L' k = Some (f_hash f)"
    unfolding step_effect_def by blast
  then show "\<exists>k. slot_local L' k = Some (f_hash f)"
  proof cases
    case old
    with inv obtain k where k: "slot_local L k = Some (f_hash f)"
      unfolding locals_ok_def by blast
    with inv have "k \<in> K" unfolding locals_ok_def by force
    with dis have "k \<notin> K0" by blast
    with eff k have "slot_local L' k = Some (f_hash f)" by (simp add: step_effect_def)
    then show ?thesis ..
  next
    case new then show ?thesis by blast
  qed
qed

lemma chart_step_effect:
  "chart_hash L = None \<Longrightarrow> chart_step env sess cid d old (chart_file req) L = Inr L'
   \<Longrightarrow> step_effect d req old {K_chart_file_hash} L L'"
  by (auto simp: chart_step_def step_effect_def mk_file_def Let_def hash_key_all hash_key_ex
      split: option.splits if_splits sum.splits)

lemma audio_step_effect:
  "audio_hash L = None \<Longrightarrow> audio_step env sess cid d old (audio_file req) L = Inr L'
   \<Longrightarrow> step_effect d req old {K_music_file_hash} L L'"
  by (auto simp: audio_step_def step_effect_def mk_file_def Let_def hash_key_all hash_key_ex
      split: option.splits if_splits sum.splits)

lemma preview_step_effect:
  "preview_hash L = None \<Longrightarrow> preview_step env sess cid d old (preview_file req) L = Inr L'
   \<Longrightarrow> step_effect d req old {K_preview_file_hash} L L'"
  by (auto simp: preview_step_def step_effect_def mk_file_def Let_def hash_key_all hash_key_ex
      split: option.splits if_splits sum.splits)

lemma background_step_effect:
  "background_hash L = None
   \<Longrightarrow> background_step env sess cid d old (background_image req) L = Inr L'
   \<Longrightarrow> step_effect d req old {K_background_file_hash} L L'"
  by (auto simp: background_step_def step_effect_def mk_file_def Let_def hash_key_all hash_key_ex
      split: option.splits if_splits sum.splits)

lemma jacket_step_effect:
  "jacket_hash L = None \<Longrightarrow> v1_hash L = None \<Longrightarrow> v3_hash L = None
   \<Longrightarrow> jacket_step env sess cid d old (jacket_image req) L = Inr L'
   \<Longrightarrow> step_effect d req old
         {K_jacket_file_hash, K_background_v1_file_hash, K_background_v3_file_hash} L L'"
  by (auto simp: jacket_step_def step_effect_def mk_file_def Let_def hash_key_all hash_key_ex
      split: option.splits if_splits sum.splits prod.splits)

lemma process_files_steps:
  assumes "process_files env sess d req old = Inr L"
  obtains L1 L2 L3 L4 where
    "chart_step env sess (req_id req) d old (chart_file req) init_locals = Inr L1"
    "jacket_step env sess (req_id req) d old (jacket_image req) L1 = Inr L2"
    "audio_step env sess (req_id req) d old (audio_file req) L2 = Inr L3"
    "preview_step env sess (req_id req) d old (preview_file req) L3 = Inr L4"
    "background_step env sess (req_id req) d old (background_image req) L4 = Inr L"
proof -
  from assms obtain L1 where
    s1: "chart_step env sess (req_id req) d old (chart_file req) init_locals = Inr L1"
    by (cases "chart_step env sess (req_id req) d old (chart_file req) init_locals")
       (simp_all add: process_files_def)
  from assms s1 obtain L2 where
    s2: "jacket_step env sess (req_id req) d old (jacket_image req) L1 = Inr L2"
    by (cases "jacket_step env sess (req_id req) d old (jacket_image req) L1")
       (simp_all add: process_files_def)
  from assms s1 s2 obtain L3 where
    s3: "audio_step env sess (req_id req) d old (audio_file req) L2 = Inr L3"
    by (cases "audio_step env sess (req_id req) d old (audio_file req) L2")
       (simp_all add: process_files_def)
  from assms s1 s2 s3 obtain L4 where
    s4: "preview_step env sess (req_id req) d old (preview_file req) L3 = Inr L4"
    by (cases "preview_step env sess (req_id req) d old (preview_file req) L3")
       (simp_all add: process_files_def)
  from assms s1 s2 s3 s4 have
    s5: "background_step env sess (req_id req) d old (background_image req) L4 = Inr L"
    by (simp add: process_files_def)
  from s1 s2 s3 s4 s5 show thesis by (rule that)
qed

lemma locals_ok_unassigned: "locals_ok d req old K L \<Longrightarrow> k \<notin> K \<Longrightarrow> slot_local L k = None"
  by (simp add: locals_ok_def)

lemma process_files_locals_ok:
  assumes "process_files env sess d req old = Inr L"
  shows "locals_ok d req old UNIV L"
proof -
  from assms obtain L1 L2 L3 L4 where
    s1: "chart_step env sess (req_id req) d old (chart_file req) init_locals = Inr L1"
    and s2: "jacket_step env sess (req_id req) d old (jacket_image req) L1 = Inr L2"
    and s3: "audio_step env sess (req_id req) d old (audio_file req) L2 = Inr L3"
    and s4: "preview_step env sess (req_id req) d old (preview_file req) L3 = Inr L4"
    and s5: "background_step env sess (req_id req) d old (background_image req) L4 = Inr L"
    by (rule process_files_steps)
  let ?K1 = "{} \<union> {K_chart_file_hash}"
  let ?K2 = "?K1 \<union> {K_jacket_file_hash, K_background_v1_file_hash, K_background_v3_file_hash}"
  let ?K3 = "?K2 \<union> {K_music_file_hash}"
  let ?K4 = "?K3 \<union> {K_preview_file_hash}"
  let ?K5 = "?K4 \<union> {K_background_file_hash}"
  note i0 = locals_ok_init [of d req old]
  have "chart_hash init_locals = None" by (simp add: init_locals_def)
  from locals_ok_step [OF i0 chart_step_effect [OF this s1]]
  have i1: "locals_ok d req old ?K1 L1" by simp
  have "jacket_hash L1 = None" "v1_hash L1 = None" "v3_hash L1 = None"
    using locals_ok_unassigned [OF i1, of K_jacket_file_hash]
      locals_ok_unassigned [OF i1, of K_background_v1_file_hash]
      locals_ok_unassigned [OF i1, of K_background_v3_file_hash]
    by simp_all
  from locals_ok_step [OF i1 jacket_step_effect [OF this s2]]
  have i2: "locals_ok d req old ?K2 L2" by simp
  have "audio_hash L2 = None"
    using locals_ok_unassigned [OF i2, of K_music_file_hash] by simp
  from locals_ok_step [OF i2 audio_step_effect [OF this s3]]
  have i3: "locals_ok d req old ?K3 L3" by simp
  have "preview_hash L3 = None"
    using locals_ok_unassigned [OF i3, of K_preview_file_hash] by simp
  from locals_ok_step [OF i3 preview_step_effect [OF this s4]]
  have i4: "locals_ok d req old ?K4 L4" by simp
  have "background_hash L4 = None"
    using locals_ok_unassigned [OF i4, of K_background_file_hash] by simp
  from locals_ok_step [OF i4 background_step_effect [OF this s5]]
  have i5: "locals_ok d req old ?K5 L" by simp
  have "?K5 = UNIV"
    by (auto intro: hash_key.exhaust)
  with i5 show ?thesis by simp
qed

lemma read_if_Inr: "read_if c n v = Inr a \<Longrightarrow> a = (if c then v else None)"
  by (auto simp: read_if_def split: if_splits option.splits)

lemma build_query2_pointers:
  assumes "build_query2 d req L = Inr q"
  shows "\<exists>args. q = update_file_hash args \<and>
           (\<forall>k. pointer_of args k = (if slot_submitted d req k then slot_local L k else None))"
proof -
  let ?cj = "includes_jacket d \<and> jacket_image req \<noteq> None"
  from assms obtain a1 where
    r1: "read_if ?cj ''jacket_hash'' (jacket_hash L) = Inr a1"
    by (cases "read_if ?cj ''jacket_hash'' (jacket_hash L)")
       (simp_all add: build_query2_def)
  from assms r1 obtain a2 where
    r2: "read_if ?cj ''v1_hash'' (v1_hash L) = Inr a2"
    by (cases "read_if ?cj ''v1_hash'' (v1_hash L)")
       (simp_all add: build_query2_def)
  from assms r1 r2 obtain a3 where
    r3: "read_if ?cj ''v3_hash'' (v3_hash L) = Inr a3"
    by (cases "read_if ?cj ''v3_hash'' (v3_hash L)")
       (simp_all add: build_query2_def)
  from assms r1 r2 r3 obtain a4 where
    r4: "read_if (includes_audio d \<and> audio_file req \<noteq> None) ''audio_hash'' (audio_hash L) = Inr a4"
    by (cases "read_if (includes_audio d \<and> audio_file req \<noteq> None) ''audio_hash'' (audio_hash L)")
       (simp_all add: build_query2_def)
  from assms r1 r2 r3 r4 obtain a5 where
    r5: "read_if (includes_chart d \<and> chart_file req \<noteq> None) ''chart_hash'' (chart_hash L) = Inr a5"
    by (cases "read_if (includes_chart d \<and> chart_file req \<noteq> None) ''chart_hash'' (chart_hash L)")
       (simp_all add: build_query2_def)
  from assms r1 r2 r3 r4 r5 obtain a6 where
    r6: "read_if (includes_preview d \<and> preview_file req \<noteq> None) ''preview_hash''
           (preview_hash L) = Inr a6"
    by (cases "read_if (includes_preview d \<and> preview_file req \<noteq> None) ''preview_hash''
                 (preview_hash L)")
       (simp_all add: build_query2_def)
  from assms r1 r2 r3 r4 r5 r6 obtain a7 where
    r7: "read_if (includes_background d \<and> background_image req \<noteq> None) ''background_hash''
           (background_hash L) = Inr a7"
    by (cases "read_if (includes_background d \<and> background_image req \<noteq> None)
                 ''background_hash'' (background_hash L)")
       (simp_all add: build_query2_def)
  let ?args = "\<lparr>h_chart_id = req_id req, h_jacket_hash = a1, h_v1_hash = a2, h_v3_hash = a3,
              h_music_hash = a4, h_chart_hash = a5, h_preview_hash = a6,
              h_background_hash = a7, h_confirm_change = True,
              h_update_none_preview = delete_preview d,
              h_update_none_background = delete_background d\<rparr>"
  from assms r1 r2 r3 r4 r5 r6 r7 have q: "q = update_file_hash ?args"
    by (simp add: build_query2_def)
  note e = read_if_Inr [OF r1] read_if_Inr [OF r2] read_if_Inr [OF r3] read_if_Inr [OF r4]
      read_if_Inr [OF r5] read_if_Inr [OF r6] read_if_Inr [OF r7]
  have "pointer_of ?args k = (if slot_submitted d req k then slot_local L k else None)" for k
    by (cases k) (simp_all only: pointer_of.simps slot_submitted.simps slot_local.simps
        file_hash_args.simps e)
  then have "\<forall>k. pointer_of ?args k = (if slot_submitted d req k then slot_local L k else None)"
    by blast
  with q show ?thesis by blast
qed

lemma finish_success:
  assumes "finish w sess d req old L tr0 = (tr, Inr r)"
  shows "\<exists>q2. build_query2 d req L = Inr q2 \<and>
           tr = tr0 @ s3_block w sess (req_id req) old L @
                [Execute (build_query (req_id req) d), Execute q2] @
                (if chart_updated L then [Execute (delete_leaderboards (row_id old))] else [])"
proof (cases "build_query2 d req L")
  case (Inl e)
  with assms show ?thesis by (simp add: finish_def Let_def split: if_splits)
next
  case (Inr q2)
  with assms show ?thesis by (simp add: finish_def Let_def split: if_splits)
qed

lemma edit_main_success:
  assumes "edit_main env w sess req = (tr, Inr r)"
  shows "\<exists>d old L q2.
           fetchrow_chart w = Some old \<and> process_files env sess d req old = Inr L \<and>
           build_query2 d req L = Inr q2 \<and>
           tr = [SessionUser, Fetchrow (get_chart_by_id (req_id req))] @
                s3_block w sess (req_id req) old L @
                [Execute (build_query (req_id req) d), Execute q2] @
                (if chart_updated L then [Execute (delete_leaderboards (row_id old))] else [])"
proof -
  let ?tr0 = "[SessionUser, Fetchrow (get_chart_by_id (req_id req))]"
  from assms obtain d where d: "req_data req = Inr d"
    by (cases "req_data req") (simp_all add: edit_main_def split: if_splits)
  from assms d obtain old where o: "fetchrow_chart w = Some old"
    by (cases "fetchrow_chart w") (simp_all add: edit_main_def Let_def split: if_splits)
  from assms d o obtain L where l: "process_files env sess d req old = Inr L"
    by (cases "process_files env sess d req old")
       (simp_all add: edit_main_def Let_def split: if_splits)
  from assms d o l have "finish w sess d req old L ?tr0 = (tr, Inr r)"
    by (simp add: edit_main_def Let_def split: if_splits)
  from finish_success [OF this] o l show ?thesis by blast
qed

lemma upload_tasks_keys:
  assumes "\<forall>f \<in> set fs. f_path f = blob_path owner cid (f_hash f)"
  shows "distinct (upload_keys (upload_tasks alr fs)) \<and>
         set (upload_keys (upload_tasks alr fs)) = blob_path owner cid ` (f_hash ` set fs - set alr)"
  using assms
proof (induction fs arbitrary: alr)
  case Nil
  then show ?case by simp
next
  case (Cons f fs)
  then have ih: "distinct (upload_keys (upload_tasks a fs)) \<and>
         set (upload_keys (upload_tasks a fs)) = blob_path owner cid ` (f_hash ` set fs - set a)" for a
    by simp
  from Cons.prems have p: "f_path f = blob_path owner cid (f_hash f)" by simp
  show ?case
  proof (cases "f_hash f \<in> set alr")
    case True
    then show ?thesis using ih [of alr] by auto
  next
    case False
    then show ?thesis using ih [of "alr @ [f_hash f]"] p
      by (auto simp: blob_path_inj)
  qed
qed

lemma edit_main_batch_cases2:
  "fst (edit_main env w sess req) = []
   \<or> fst (edit_main env w sess req) = [SessionUser, Fetchrow (get_chart_by_id (req_id req))]
   \<or> (\<exists>d old L. req_data req = Inr d \<and> fetchrow_chart w = Some old \<and>
         process_files env sess d req old = Inr L \<and>
         fst (edit_main env w sess req)
           = fst (finish w sess d req old L [SessionUser, Fetchrow (get_chart_by_id (req_id req))]))"
  by (auto simp: edit_main_def Let_def split: sum.splits option.splits)

lemma gather_in_commits: "list_all is_commit post \<Longrightarrow> Gather ts \<notin> set post"
  by (auto simp: list_all_iff)

lemma edit_main_gather:
  assumes "Gather tasks \<in> set (fst (edit_main env w sess req))"
  shows "\<exists>d old L. req_data req = Inr d \<and> fetchrow_chart w = Some old \<and>
           process_files env sess d req old = Inr L \<and>
           upload_keys tasks = upload_keys (upload_tasks [] (s3_uploads L))"
proof -
  let ?tr0 = "[SessionUser, Fetchrow (get_chart_by_id (req_id req))]"
  from edit_main_batch_cases2 [of env w sess req] assms obtain d old L where
    d: "req_data req = Inr d" "fetchrow_chart w = Some old"
       "process_files env sess d req old = Inr L"
    and t: "fst (edit_main env w sess req) = fst (finish w sess d req old L ?tr0)"
    by auto
  from finish_shape [of w sess d req old L ?tr0] obtain post where
    p: "fst (finish w sess d req old L ?tr0) = ?tr0 @ s3_block w sess (req_id req) old L @ post"
       "list_all is_commit post"
    by blast
  from assms t p gather_in_commits [OF p(2), of tasks]
  have "Gather tasks \<in> set (s3_block w sess (req_id req) old L)" by auto
  from s3_block_gather [OF this] d show ?thesis by blast
qed

lemma paths_ok_all:
  "paths_ok sess cid fs \<Longrightarrow> \<forall>f \<in> set fs. f_path f = blob_path (sonolus_id sess) cid (f_hash f)"
  by (simp add: paths_ok_def list_all_iff)

text \<open>
  C8. A successful upload issues one batch, and for every hash pointer of the row it
  inserts the batch holds exactly one create operation on the key of that hash, also when
  two slots carry the same hash. Every batch an edit issues creates no key twice and
  holds exactly one create operation for each file the handler collected. A successful
  edit commits a file-hash statement; every pointer of that statement that differs from
  the stored hash of its slot has exactly one create operation on its key in the trace,
  no key is created twice, and every key created is the key of some pointer of the
  statement, so slots with one hash share one blob.
\<close>

theorem uploads_deduplicated_by_hash:
  "(upload_main env w sess ureq = (tr, Inr rid) \<longrightarrow>
      (\<exists>tasks chart.
         tr = [SessionUser, Gather tasks, Fetchrow (create_chart chart),
               Execute (update_cooldown (sonolus_id sess) 1)] \<and>
         (\<forall>h \<in> set (chart_hashes chart).
            count_list (upload_keys tasks) (blob_path (c_author chart) (c_id chart) h) = 1)))
   \<and>
   (\<forall>tasks. Gather tasks \<in> set (fst (edit_main env w sess req)) \<longrightarrow>
      distinct (upload_keys tasks) \<and>
      (\<exists>d old L. req_data req = Inr d \<and> fetchrow_chart w = Some old \<and>
         process_files env sess d req old = Inr L \<and>
         (\<forall>f \<in> set (s3_uploads L).
            count_list (upload_keys tasks)
              (blob_path (sonolus_id sess) (req_id req) (f_hash f)) = 1)))
   \<and>
   (edit_main env w sess req = (etr, Inr r) \<longrightarrow>
      (\<exists>old args.
         fetchrow_chart w = Some old \<and>
         Execute (update_file_hash args) \<in> set etr \<and>
         distinct (trace_upload_keys etr) \<and>
         (\<forall>k h. pointer_of args k = Some h \<and> Some h \<noteq> getattr_hash old k \<longrightarrow>
            count_list (trace_upload_keys etr)
              (blob_path (sonolus_id sess) (req_id req) h) = 1) \<and>
         (\<forall>key \<in> set (trace_upload_keys etr).
            \<exists>k h. pointer_of args k = Some h \<and>
                  key = blob_path (sonolus_id sess) (req_id req) h)))"
proof (intro conjI impI allI)
  assume "upload_main env w sess ureq = (tr, Inr rid)"
  from upload_main_success [OF this] obtain d' uploads chart where
    u: "upload_files env sess (filter (\<lambda>c. c \<noteq> CHR ''-'') (uuid4 w)) d' ureq = Inr (uploads, chart)"
    and t: "tr = [SessionUser, Gather (upload_tasks [] uploads), Fetchrow (create_chart chart),
                  Execute (update_cooldown (sonolus_id sess) 1)]"
    by blast
  from upload_files_paths [OF u] have
    p: "paths_ok sess (c_id chart) uploads" and h: "set (chart_hashes chart) = f_hash ` set uploads"
    and a: "c_author chart = sonolus_id sess"
    by simp_all
  have "count_list (upload_keys (upload_tasks [] uploads))
          (blob_path (c_author chart) (c_id chart) x) = 1" if "x \<in> set (chart_hashes chart)" for x
  proof -
    from that h obtain f where "f \<in> set uploads" "x = f_hash f" by auto
    with count_uploads_once [OF p, of f] a show ?thesis by simp
  qed
  with t show "\<exists>tasks chart.
         tr = [SessionUser, Gather tasks, Fetchrow (create_chart chart),
               Execute (update_cooldown (sonolus_id sess) 1)] \<and>
         (\<forall>h \<in> set (chart_hashes chart).
            count_list (upload_keys tasks) (blob_path (c_author chart) (c_id chart) h) = 1)"
    by blast
next
  fix tasks
  assume g: "Gather tasks \<in> set (fst (edit_main env w sess req))"
  from edit_main_gather [OF g] obtain d old L where
    d: "req_data req = Inr d" "fetchrow_chart w = Some old"
       "process_files env sess d req old = Inr L"
    and k: "upload_keys tasks = upload_keys (upload_tasks [] (s3_uploads L))"
    by blast
  note p = process_files_paths [OF d(3)]
  from upload_tasks_keys [OF paths_ok_all [OF p], of "[]"] k
  show "distinct (upload_keys tasks)" by simp
  have "\<forall>f \<in> set (s3_uploads L).
            count_list (upload_keys tasks)
              (blob_path (sonolus_id sess) (req_id req) (f_hash f)) = 1"
    using count_uploads_once [OF p] k by simp
  with d show "\<exists>d old L. req_data req = Inr d \<and> fetchrow_chart w = Some old \<and>
         process_files env sess d req old = Inr L \<and>
         (\<forall>f \<in> set (s3_uploads L).
            count_list (upload_keys tasks)
              (blob_path (sonolus_id sess) (req_id req) (f_hash f)) = 1)"
    by blast
next
  assume "edit_main env w sess req = (etr, Inr r)"
  from edit_main_success [OF this] obtain d old L q2 where
    o: "fetchrow_chart w = Some old" and l: "process_files env sess d req old = Inr L"
    and q: "build_query2 d req L = Inr q2"
    and t: "etr = [SessionUser, Fetchrow (get_chart_by_id (req_id req))] @
                s3_block w sess (req_id req) old L @
                [Execute (build_query (req_id req) d), Execute q2] @
                (if chart_updated L then [Execute (delete_leaderboards (row_id old))] else [])"
    by blast
  from build_query2_pointers [OF q] obtain args where
    a: "q2 = update_file_hash args"
    and pt: "\<And>k. pointer_of args k = (if slot_submitted d req k then slot_local L k else None)"
    by blast
  note p = process_files_paths [OF l]
  note inv = process_files_locals_ok [OF l]
  let ?fs = "s3_uploads L"
  let ?P = "blob_path (sonolus_id sess) (req_id req)"
  have keys: "trace_upload_keys etr = upload_keys (upload_tasks [] ?fs)"
    unfolding t by (simp add: trace_upload_keys_append trace_upload_keys_s3_block)
  note uk = upload_tasks_keys [OF paths_ok_all [OF p], of "[]"]
  have e: "Execute (update_file_hash args) \<in> set etr"
    unfolding t a by simp
  have dist: "distinct (trace_upload_keys etr)"
    unfolding keys using uk by simp
  have cnt: "count_list (trace_upload_keys etr) (?P h) = 1"
    if "pointer_of args k = Some h \<and> Some h \<noteq> getattr_hash old k" for k h
  proof -
    from that pt [of k] have "slot_local L k = Some h"
      by (simp split: if_splits)
    with inv that have "h \<in> f_hash ` set ?fs"
      unfolding locals_ok_def by blast
    then obtain f where "f \<in> set ?fs" "h = f_hash f" by blast
    with count_uploads_once [OF p, of f] show ?thesis unfolding keys by simp
  qed
  have src: "\<exists>k h. pointer_of args k = Some h \<and> key = ?P h"
    if "key \<in> set (trace_upload_keys etr)" for key
  proof -
    from that uk obtain f where f: "f \<in> set ?fs" "key = ?P (f_hash f)"
      unfolding keys by auto
    with inv obtain k where k: "slot_local L k = Some (f_hash f)"
      unfolding locals_ok_def by blast
    with inv have "slot_submitted d req k" unfolding locals_ok_def by blast
    with k pt [of k] have "pointer_of args k = Some (f_hash f)" by simp
    with f show ?thesis by blast
  qed
  from o e dist cnt src
  show "\<exists>old args.
         fetchrow_chart w = Some old \<and>
         Execute (update_file_hash args) \<in> set etr \<and>
         distinct (trace_upload_keys etr) \<and>
         (\<forall>k h. pointer_of args k = Some h \<and> Some h \<noteq> getattr_hash old k \<longrightarrow>
            count_list (trace_upload_keys etr) (?P h) = 1) \<and>
         (\<forall>key \<in> set (trace_upload_keys etr).
            \<exists>k h. pointer_of args k = Some h \<and> key = ?P h)"
    by blast
qed

lemma run_sample_upload:
  "upload_main sample_env sample_world sample_session sample_upload =
     ([SessionUser,
       Gather
        [Upload ''u1/0123456789abcdef0123456789abcdef/1X'' ''1X'' ''image/png'',
         Upload ''u1/0123456789abcdef0123456789abcdef/3X'' ''3X'' ''image/png'',
         Upload ''u1/0123456789abcdef0123456789abcdef/jX'' ''jX'' ''image/png'',
         Upload ''u1/0123456789abcdef0123456789abcdef/gz:LevelData:LVD1''
           ''gz:LevelData:LVD1'' ''application/gzip'',
         Upload ''u1/0123456789abcdef0123456789abcdef/A'' ''A'' ''audio/mpeg''],
       Fetchrow (create_chart
          \<lparr>c_id = ''0123456789abcdef0123456789abcdef'', c_author = ''u1'',
           c_rating = 10, c_chart_author = ''a'', c_title = ''t'',
           c_artists = ''b'', c_jacket_file_hash = ''jX'',
           c_music_file_hash = ''A'',
           c_chart_file_hash = ''gz:LevelData:LVD1'',
           c_background_v1_file_hash = ''1X'',
           c_background_v3_file_hash = ''3X'', c_tags = [],
           c_description = None, c_preview_file_hash = None,
           c_background_file_hash = Some ''1X''\<rparr>),
       Execute (update_cooldown ''u1'' 1)],
      Inr ''0123456789abcdef0123456789abcdef'')"
  by (simp add: sample_defs upload_defs Let_def)

lemma run_jacket_and_background:
  "edit_main sample_env sample_world sample_session jacket_and_background =
     ([SessionUser,
       Fetchrow (get_chart_by_id ''0123456789abcdef0123456789abcdef''),
       Gather
        [Delete ''u1/0123456789abcdef0123456789abcdef/jX'',
         Delete ''u1/0123456789abcdef0123456789abcdef/3X'',
         Delete ''u1/0123456789abcdef0123456789abcdef/1X'',
         Upload ''u1/0123456789abcdef0123456789abcdef/jY'' ''jY'' ''image/png'',
         Upload ''u1/0123456789abcdef0123456789abcdef/1Y'' ''1Y'' ''image/png'',
         Upload ''u1/0123456789abcdef0123456789abcdef/3Y'' ''3Y'' ''image/png''],
       Execute (update_metadata
          \<lparr>m_chart_id = ''0123456789abcdef0123456789abcdef'',
           m_chart_author = None, m_rating = None, m_title = None,
           m_artists = None, m_tags = None, m_description = None,
           m_update_none_description = True\<rparr>),
       Execute (update_file_hash
          \<lparr>h_chart_id = ''0123456789abcdef0123456789abcdef'',
           h_jacket_hash = Some ''jY'', h_v1_hash = Some ''1Y'',
           h_v3_hash = Some ''3Y'', h_music_hash = None, h_chart_hash = None,
           h_preview_hash = None, h_background_hash = Some ''1Y'',
           h_confirm_change = True, h_update_none_preview = False,
           h_update_none_background = False\<rparr>)],
      Inr ''success'')"
  by (simp add: sample_defs jacket_and_background_def edit_defs Let_def)

text \<open>
  The sample upload stores the same bytes as first jacket variant and as background: one
  create operation serves both pointers. The sample edit replaces the jacket and the
  background, again with the variant's bytes as background: three files are created for
  four new pointers.
\<close>

theorem uploads_deduplicated_by_hash_witness:
  "upload_main sample_env sample_world sample_session sample_upload
     = (fst (upload_main sample_env sample_world sample_session sample_upload),
        Inr ''0123456789abcdef0123456789abcdef'') \<and>
   (\<exists>tasks chart.
         fst (upload_main sample_env sample_world sample_session sample_upload)
           = [SessionUser, Gather tasks, Fetchrow (create_chart chart),
              Execute (update_cooldown (sonolus_id sample_session) 1)] \<and>
         c_background_v1_file_hash chart = ''1X'' \<and> c_background_file_hash chart = Some ''1X'' \<and>
         count_list (upload_keys tasks) (blob_path (c_author chart) (c_id chart) ''1X'') = 1) \<and>
   (\<exists>tasks.
         Gather tasks
           \<in> set (fst (edit_main sample_env sample_world sample_session jacket_and_background)) \<and>
         distinct (upload_keys tasks) \<and>
         upload_keys tasks =
           [''u1/0123456789abcdef0123456789abcdef/jY'', ''u1/0123456789abcdef0123456789abcdef/1Y'',
            ''u1/0123456789abcdef0123456789abcdef/3Y'']) \<and>
   edit_main sample_env sample_world sample_session jacket_and_background
     = (fst (edit_main sample_env sample_world sample_session jacket_and_background),
        Inr ''success'') \<and>
   (\<exists>args.
         Execute (update_file_hash args)
           \<in> set (fst (edit_main sample_env sample_world sample_session jacket_and_background)) \<and>
         pointer_of args K_background_v1_file_hash = Some ''1Y'' \<and>
         pointer_of args K_background_file_hash = Some ''1Y'' \<and>
         Some ''1Y'' \<noteq> getattr_hash sample_row K_background_v1_file_hash \<and>
         count_list
           (trace_upload_keys
              (fst (edit_main sample_env sample_world sample_session jacket_and_background)))
           (blob_path (sonolus_id sample_session) (req_id jacket_and_background) ''1Y'') = 1)"
proof -
  let ?etr = "fst (edit_main sample_env sample_world sample_session jacket_and_background)"
  let ?tasks = "[Delete ''u1/0123456789abcdef0123456789abcdef/jX'',
         Delete ''u1/0123456789abcdef0123456789abcdef/3X'',
         Delete ''u1/0123456789abcdef0123456789abcdef/1X'',
         Upload ''u1/0123456789abcdef0123456789abcdef/jY'' ''jY'' ''image/png'',
         Upload ''u1/0123456789abcdef0123456789abcdef/1Y'' ''1Y'' ''image/png'',
         Upload ''u1/0123456789abcdef0123456789abcdef/3Y'' ''3Y'' ''image/png'']"
  note t = uploads_deduplicated_by_hash
    [of sample_env sample_world sample_session sample_upload
        "fst (upload_main sample_env sample_world sample_session sample_upload)"
        "''0123456789abcdef0123456789abcdef''" jacket_and_background ?etr "''success''"]
  have hu: "upload_main sample_env sample_world sample_session sample_upload
     = (fst (upload_main sample_env sample_world sample_session sample_upload),
        Inr ''0123456789abcdef0123456789abcdef'')"
    by (simp add: run_sample_upload)
  from t [THEN conjunct1, THEN mp, OF hu] obtain tasks chart where
    tc: "fst (upload_main sample_env sample_world sample_session sample_upload)
           = [SessionUser, Gather tasks, Fetchrow (create_chart chart),
              Execute (update_cooldown (sonolus_id sample_session) 1)]"
    and cnt: "\<forall>h \<in> set (chart_hashes chart).
            count_list (upload_keys tasks) (blob_path (c_author chart) (c_id chart) h) = 1"
    by blast
  from tc have ch: "c_background_v1_file_hash chart = ''1X''" "c_background_file_hash chart = Some ''1X''"
    by (auto simp: run_sample_upload)
  then have "''1X'' \<in> set (chart_hashes chart)" by (simp add: chart_hashes_def)
  with cnt have "count_list (upload_keys tasks) (blob_path (c_author chart) (c_id chart) ''1X'') = 1"
    by blast
  with tc ch have eu: "\<exists>tasks chart.
         fst (upload_main sample_env sample_world sample_session sample_upload)
           = [SessionUser, Gather tasks, Fetchrow (create_chart chart),
              Execute (update_cooldown (sonolus_id sample_session) 1)] \<and>
         c_background_v1_file_hash chart = ''1X'' \<and> c_background_file_hash chart = Some ''1X'' \<and>
         count_list (upload_keys tasks) (blob_path (c_author chart) (c_id chart) ''1X'') = 1"
    by blast
  have g: "Gather ?tasks \<in> set ?etr"
    by (simp add: run_jacket_and_background)
  from t [THEN conjunct2, THEN conjunct1, THEN spec, THEN mp, OF g]
  have dt: "distinct (upload_keys ?tasks)" by (rule conjunct1)
  have kt: "upload_keys ?tasks =
           [''u1/0123456789abcdef0123456789abcdef/jY'', ''u1/0123456789abcdef0123456789abcdef/1Y'',
            ''u1/0123456789abcdef0123456789abcdef/3Y'']"
    by simp
  from g dt kt have eb: "\<exists>tasks. Gather tasks \<in> set ?etr \<and> distinct (upload_keys tasks) \<and>
         upload_keys tasks =
           [''u1/0123456789abcdef0123456789abcdef/jY'', ''u1/0123456789abcdef0123456789abcdef/1Y'',
            ''u1/0123456789abcdef0123456789abcdef/3Y'']"
    by blast
  have he: "edit_main sample_env sample_world sample_session jacket_and_background
     = (?etr, Inr ''success'')"
    by (simp add: run_jacket_and_background)
  from t [THEN conjunct2, THEN conjunct2, THEN mp, OF he] obtain old args where
    o: "fetchrow_chart sample_world = Some old"
    and e: "Execute (update_file_hash args) \<in> set ?etr"
    and c: "\<forall>k h. pointer_of args k = Some h \<and> Some h \<noteq> getattr_hash old k \<longrightarrow>
            count_list (trace_upload_keys ?etr)
              (blob_path (sonolus_id sample_session) (req_id jacket_and_background) h) = 1"
    by blast
  from o have old: "old = sample_row" by (simp add: sample_world_def)
  from e have pa: "pointer_of args K_background_v1_file_hash = Some ''1Y''"
    "pointer_of args K_background_file_hash = Some ''1Y''"
    by (auto simp: run_jacket_and_background)
  have ne: "Some ''1Y'' \<noteq> getattr_hash sample_row K_background_v1_file_hash"
    by (simp add: sample_row_def)
  from c pa(1) ne old
  have "count_list (trace_upload_keys ?etr)
          (blob_path (sonolus_id sample_session) (req_id jacket_and_background) ''1Y'') = 1"
    by blast
  with e pa ne have ep: "\<exists>args.
         Execute (update_file_hash args) \<in> set ?etr \<and>
         pointer_of args K_background_v1_file_hash = Some ''1Y'' \<and>
         pointer_of args K_background_file_hash = Some ''1Y'' \<and>
         Some ''1Y'' \<noteq> getattr_hash sample_row K_background_v1_file_hash \<and>
         count_list (trace_upload_keys ?etr)
           (blob_path (sonolus_id sample_session) (req_id jacket_and_background) ''1Y'') = 1"
    by blast
  show ?thesis by (intro conjI hu eu eb he ep)
qed

section \<open>Resubmitting stored content\<close>

lemma jacket_step_compares_submitted_bytes:
  assumes "jf = Some f" and "file_size f \<le> MAX_FILE_SIZES_jacket" and "includes_jacket d"
    and "get_and_check_file env f ''image'' = Inr raw"
    and "calculate_sha1 env raw \<noteq> jacket_file_hash old"
    and "generate_backgrounds_resize_jacket env raw = Inr (v1, v3, jb)"
  shows "\<exists>L'. jacket_step env sess cid d old jf L = Inr L'
           \<and> K_jacket_file_hash \<in> set (old_deletes L')
           \<and> mk_file sess cid (calculate_sha1 env jb) jb ''image/png'' \<in> set (s3_uploads L')"
  using assms by (simp add: jacket_step_def Let_def)

lemma audio_step_same_hash:
  assumes "af = Some f" and "file_size f \<le> MAX_FILE_SIZES_audio" and "includes_audio d"
    and "get_and_check_file env f ''audio/mpeg'' = Inr ab"
    and "calculate_sha1 env ab = music_file_hash old"
  shows "audio_step env sess cid d old af L
           = Inr (L\<lparr>audio_hash := Some (music_file_hash old), chart_updated := True\<rparr>)"
  using assms by (simp add: audio_step_def Let_def)

lemma no_blob_change_skips_replay_cleanup:
  "deleted_hashes old (old_deletes L) = [] \<Longrightarrow> s3_uploads L = []
   \<Longrightarrow> s3_block w sess cid old L = []"
  by (simp add: s3_block_def)

text \<open>
  C3 at a jacket. The stored jacket hash is that of the resized image. Resubmitting the
  image it was made from gives final bytes with the stored hash, yet the handler compares
  the hash of the bytes as submitted, finds a difference, and the batch both deletes and
  uploads the blob of the stored jacket hash (and of the third variant). Resubmitting the
  stored jacket bytes themselves skips the resizing, leaves \<^verbatim>\<open>v1_hash\<close> unassigned, and
  the request ends in an \<^verbatim>\<open>UnboundLocalError\<close> before the commit.
\<close>

theorem resubmitted_jacket_deleted_and_uploaded:
  "generate_backgrounds_resize_jacket sample_env ''X'' = Inr (''1X'', ''3X'', ''jX'') \<and>
   calculate_sha1 sample_env ''jX'' = jacket_file_hash sample_row \<and>
   edit_main sample_env sample_world sample_session same_jacket =
     ([SessionUser,
       Fetchrow (get_chart_by_id ''0123456789abcdef0123456789abcdef''),
       Gather
        [Delete ''u1/0123456789abcdef0123456789abcdef/jX'',
         Delete ''u1/0123456789abcdef0123456789abcdef/3X'',
         Upload ''u1/0123456789abcdef0123456789abcdef/jX'' ''jX'' ''image/png'',
         Upload ''u1/0123456789abcdef0123456789abcdef/1X'' ''1X'' ''image/png'',
         Upload ''u1/0123456789abcdef0123456789abcdef/3X'' ''3X'' ''image/png''],
       Execute (update_metadata
          \<lparr>m_chart_id = ''0123456789abcdef0123456789abcdef'',
           m_chart_author = None, m_rating = None, m_title = None,
           m_artists = None, m_tags = None, m_description = None,
           m_update_none_description = True\<rparr>),
       Execute (update_file_hash
          \<lparr>h_chart_id = ''0123456789abcdef0123456789abcdef'',
           h_jacket_hash = Some ''jX'', h_v1_hash = Some ''1X'',
           h_v3_hash = Some ''3X'', h_music_hash = None, h_chart_hash = None,
           h_preview_hash = None, h_background_hash = None,
           h_confirm_change = True, h_update_none_preview = False,
           h_update_none_background = False\<rparr>)],
      Inr ''success'') \<and>
   calculate_sha1 sample_env ''jX'' = jacket_file_hash sample_row \<and>
   edit_main sample_env sample_world sample_session stored_jacket =
     ([SessionUser, Fetchrow (get_chart_by_id ''0123456789abcdef0123456789abcdef'')],
      Inl (UnboundLocalError ''v1_hash''))"
  by (simp add: run_same_jacket run_stored_jacket) (simp add: sample_env_def sample_row_def)

text \<open>
  Read off the first run: one batch holds both the deletion and the upload of the key of
  the stored jacket hash.
\<close>

theorem resubmitted_jacket_deleted_and_uploaded_witness:
  "\<exists>ts. Gather ts \<in> set (fst (edit_main sample_env sample_world sample_session same_jacket)) \<and>
        Delete ''u1/0123456789abcdef0123456789abcdef/jX'' \<in> set ts \<and>
        Upload ''u1/0123456789abcdef0123456789abcdef/jX'' ''jX'' ''image/png'' \<in> set ts"
proof -
  note e = resubmitted_jacket_deleted_and_uploaded
             [THEN conjunct2, THEN conjunct2, THEN conjunct1]
  show ?thesis unfolding e
    by (intro exI [of _ "[Delete ''u1/0123456789abcdef0123456789abcdef/jX'',
         Delete ''u1/0123456789abcdef0123456789abcdef/3X'',
         Upload ''u1/0123456789abcdef0123456789abcdef/jX'' ''jX'' ''image/png'',
         Upload ''u1/0123456789abcdef0123456789abcdef/1X'' ''1X'' ''image/png'',
         Upload ''u1/0123456789abcdef0123456789abcdef/3X'' ''3X'' ''image/png'']"]) simp
qed

text \<open>
  C10 at unchanged audio. Resubmitting the stored audio marks the chart as updated, but
  there is neither a hash to delete nor a file to upload, so the object-store block is
  skipped: the leaderboard records are deleted, the listed replay blob is not.
\<close>

theorem same_audio_keeps_replay_blobs:
  "replay_objects sample_world = [''u1/0123456789abcdef0123456789abcdef/replays/r1''] \<and>
   calculate_sha1 sample_env ''A'' = music_file_hash sample_row \<and>
   edit_main sample_env sample_world sample_session same_audio =
     ([SessionUser,
       Fetchrow (get_chart_by_id ''0123456789abcdef0123456789abcdef''),
       Execute (update_metadata
          \<lparr>m_chart_id = ''0123456789abcdef0123456789abcdef'',
           m_chart_author = None, m_rating = None, m_title = None,
           m_artists = None, m_tags = None, m_description = None,
           m_update_none_description = True\<rparr>),
       Execute (update_file_hash
          \<lparr>h_chart_id = ''0123456789abcdef0123456789abcdef'',
           h_jacket_hash = None, h_v1_hash = None, h_v3_hash = None,
           h_music_hash = Some ''A'', h_chart_hash = None,
           h_preview_hash = None, h_background_hash = None,
           h_confirm_change = True, h_update_none_preview = False,
           h_update_none_background = False\<rparr>),
       Execute (delete_leaderboards ''0123456789abcdef0123456789abcdef'')],
      Inr ''success'')"
  by (simp add: run_same_audio) (simp add: sample_env_def sample_row_def sample_world_def)

text \<open>
  Read off the run: the trace has no object-store operation although a replay object is
  listed for the chart, and it has the deletion of the leaderboard records.
\<close>

theorem same_audio_keeps_replay_blobs_witness:
  "replay_objects sample_world \<noteq> [] \<and>
   \<not> list_ex is_s3 (fst (edit_main sample_env sample_world sample_session same_audio)) \<and>
   list_ex (\<lambda>ev. ev = Execute (delete_leaderboards ''0123456789abcdef0123456789abcdef''))
     (fst (edit_main sample_env sample_world sample_session same_audio))"
proof -
  note r = same_audio_keeps_replay_blobs [THEN conjunct1]
  note e = same_audio_keeps_replay_blobs [THEN conjunct2, THEN conjunct2]
  have a: "replay_objects sample_world \<noteq> []" unfolding r by simp
  have b: "\<not> list_ex is_s3 (fst (edit_main sample_env sample_world sample_session same_audio))"
    unfolding e by simp
  have c: "list_ex (\<lambda>ev. ev = Execute (delete_leaderboards ''0123456789abcdef0123456789abcdef''))
     (fst (edit_main sample_env sample_world sample_session same_audio))"
    unfolding e by simp
  show ?thesis by (intro conjI a b c)
qed

end
